theory Spec2Isabelle
  imports Complex_Main "HOL-Library.Sublist" "HOL-Library.Char_ord" "HOL-Library.List_Lexorder"
begin

section \<open>Strings as Python and SQLite see them\<close>

text \<open>
  A Python \<open>str\<close> is modelled as a \<^typ>\<open>string\<close>, one \<^typ>\<open>char\<close> per code point
  (code points below 256). The helpers below are the library operations the sources call:
  \<open>str.split()\<close>, \<open>str.join\<close>, \<open>str(int)\<close>, slicing, and SQLite's \<open>LIKE\<close> and
  \<open>substr\<close>.
\<close>

definition nl :: string where
  "nl = [CHR 0x0A]"

text \<open>\<open>sep.join(xs)\<close>.\<close>

fun join :: "string \<Rightarrow> string list \<Rightarrow> string" where
  "join sep [] = []"
| "join sep [x] = x"
| "join sep (x # y # ys) = x @ sep @ join sep (y # ys)"

text \<open>\<open>str(n)\<close> for a Python integer: decimal digits, a leading minus sign when negative.\<close>

function str_nat :: "nat \<Rightarrow> string" where
  "str_nat n = (if n < 10 then [char_of (48 + n)]
                else str_nat (n div 10) @ [char_of (48 + n mod 10)])"
  by pat_completeness auto
termination
  by (relation "measure id") auto

declare str_nat.simps [simp del]

definition str_int :: "int \<Rightarrow> string" where
  "str_int i = (if i < 0 then CHR ''-'' # str_nat (nat (- i)) else str_nat (nat i))"

text \<open>
  \<open>str.isspace\<close> on the code points below 256: TAB, LF, VT, FF, CR, the separators
  FS, GS, RS, US, the space, NEL (0x85) and the no-break space (0xA0).
\<close>

definition is_space :: "char \<Rightarrow> bool" where
  "is_space c = ((of_char c :: nat) \<in> {9, 10, 11, 12, 13, 28, 29, 30, 31, 32, 133, 160})"

text \<open>
  \<open>s.split()\<close> with no argument: the maximal runs of non-whitespace characters, in
  order; never an empty word. \<open>cur\<close> is the word being read.
\<close>

fun split_from :: "string \<Rightarrow> string \<Rightarrow> string list" where
  "split_from cur [] = (if cur = [] then [] else [cur])"
| "split_from cur (c # cs) =
     (if is_space c then (if cur = [] then split_from [] cs else cur # split_from [] cs)
      else split_from (cur @ [c]) cs)"

definition str_split :: "string \<Rightarrow> string list" where
  "str_split s = split_from [] s"

text \<open>\<open>s.strip()\<close>: leading and trailing whitespace removed.\<close>

definition strip :: "string \<Rightarrow> string" where
  "strip s = rev (dropWhile is_space (rev (dropWhile is_space s)))"

text \<open>SQLite folds the case of the 26 ASCII letters only when it compares with \<open>LIKE\<close>.\<close>

definition ascii_lower :: "char \<Rightarrow> char" where
  "ascii_lower c =
     (let n = (of_char c :: nat) in if 65 \<le> n \<and> n \<le> 90 then char_of (n + 32) else c)"

text \<open>
  SQLite keeps text as UTF-8 and measures it in bytes: one byte for a code point below
  128, two for the others below 256.
\<close>

definition utf8_length :: "string \<Rightarrow> nat" where
  "utf8_length s = sum_list (map (\<lambda>c. if (of_char c :: nat) < 128 then 1 else 2) s)"

text \<open>
  \<open>LIKE\<close> and \<open>substr\<close> read a text value as a C string: it ends before its first NUL
  character.
\<close>

definition c_string :: "string \<Rightarrow> string" where
  "c_string s = takeWhile (\<lambda>c. c \<noteq> CHR 0x00) s"

text \<open>
  The comparison behind \<open>text LIKE pattern\<close> (no \<open>ESCAPE\<close> clause): in the pattern, \<open>%\<close>
  matches any run of characters, also the empty one, \<open>_\<close> matches exactly one character,
  and every other character matches itself up to ASCII case. First argument: the pattern.
\<close>

fun pattern_compare :: "string \<Rightarrow> string \<Rightarrow> bool" where
  "pattern_compare [] [] = True"
| "pattern_compare [] (c # cs) = False"
| "pattern_compare (p # ps) [] = (p = CHR ''%'' \<and> pattern_compare ps [])"
| "pattern_compare (p # ps) (c # cs) =
     (if p = CHR ''%'' then pattern_compare ps (c # cs) \<or> pattern_compare (p # ps) cs
      else if p = CHR ''_'' then pattern_compare ps cs
      else ascii_lower p = ascii_lower c \<and> pattern_compare ps cs)"

text \<open>What \<open>text LIKE pattern\<close> yields when it yields a truth value.\<close>

definition like_matches :: "string \<Rightarrow> string \<Rightarrow> bool" where
  "like_matches pat s = pattern_compare (c_string pat) (c_string s)"

text \<open>
  \<open>text LIKE pattern\<close> as SQLite evaluates it on a row: a pattern of more than 50000 bytes
  (\<open>SQLITE_MAX_LIKE_PATTERN_LENGTH\<close>, counted with what follows a NUL) raises an
  exception, whose text \<open>Inl\<close> carries.
\<close>

definition like :: "string \<Rightarrow> string \<Rightarrow> string + bool" where
  "like pat s =
     (if 50000 < utf8_length pat then Inl ''LIKE or GLOB pattern too complex''
      else Inr (like_matches pat s))"

text \<open>The parameter \<open>f"%{word}%"\<close> that every query of the sources binds.\<close>

definition contains_pattern :: "string \<Rightarrow> string" where
  "contains_pattern word = CHR ''%'' # word @ [CHR ''%'']"

text \<open>
  A column value may be SQL \<open>NULL\<close> (\<open>None\<close>); \<open>NULL LIKE p\<close> is not true, and Python
  reads \<open>NULL\<close> as \<open>None\<close>. The length of the pattern is checked before the value is
  looked at.
\<close>

definition like_col :: "string \<Rightarrow> string option \<Rightarrow> string + bool" where
  "like_col pat col =
     (case col of
        None \<Rightarrow> if 50000 < utf8_length pat then Inl ''LIKE or GLOB pattern too complex''
                else Inr False
      | Some s \<Rightarrow> like pat s)"

text \<open>
  \<open>a OR b\<close> and \<open>a AND b\<close> in a \<open>WHERE\<close> clause: the right operand is evaluated only when
  the left one does not decide.
\<close>

definition or_else :: "string + bool \<Rightarrow> string + bool \<Rightarrow> string + bool" where
  "or_else a b = (case a of Inl e \<Rightarrow> Inl e | Inr t \<Rightarrow> if t then Inr True else b)"

definition and_then :: "string + bool \<Rightarrow> string + bool \<Rightarrow> string + bool" where
  "and_then a b = (case a of Inl e \<Rightarrow> Inl e | Inr t \<Rightarrow> if t then b else Inr False)"

text \<open>
  Binding a text parameter of more than 1000000000 bytes (\<open>SQLITE_MAX_LENGTH\<close>) raises
  before the statement runs; \<open>bind_text p run\<close> is the statement \<open>run\<close> with the
  parameter \<open>p\<close> bound.
\<close>

definition bind_text :: "string \<Rightarrow> string + 'a \<Rightarrow> string + 'a" where
  "bind_text p run = (if 1000000000 < utf8_length p then Inl ''string or blob too big'' else run)"

text \<open>
  A statement that reads a table row by row and keeps the rows on which its \<open>WHERE\<close>
  clause is true; an exception on a row ends it. \<open>scan\<close> reads every row, as a statement
  that orders its result does; \<open>scan_limit n\<close> stops after the \<open>n\<close>th row it keeps, as
  \<open>LIMIT n\<close> does.
\<close>

fun scan :: "('a \<Rightarrow> string + bool) \<Rightarrow> 'a list \<Rightarrow> string + 'a list" where
  "scan P [] = Inr []"
| "scan P (x # xs) =
     (case P x of
        Inl e \<Rightarrow> Inl e
      | Inr t \<Rightarrow>
          (case scan P xs of
             Inl e \<Rightarrow> Inl e
           | Inr ys \<Rightarrow> Inr (if t then x # ys else ys)))"

fun scan_limit :: "nat \<Rightarrow> ('a \<Rightarrow> string + bool) \<Rightarrow> 'a list \<Rightarrow> string + 'a list" where
  "scan_limit 0 P xs = Inr []"
| "scan_limit (Suc n) P [] = Inr []"
| "scan_limit (Suc n) P (x # xs) =
     (case P x of
        Inl e \<Rightarrow> Inl e
      | Inr t \<Rightarrow>
          if t then (case scan_limit n P xs of Inl e \<Rightarrow> Inl e | Inr ys \<Rightarrow> Inr (x # ys))
          else scan_limit (Suc n) P xs)"

text \<open>
  What the specification calls a case-insensitive substring: \<open>w\<close> occurs in \<open>s\<close> as a
  contiguous block, up to ASCII case.
\<close>

definition ci_substring :: "string \<Rightarrow> string \<Rightarrow> bool" where
  "ci_substring w s = sublist (map ascii_lower w) (map ascii_lower s)"

text \<open>A LIKE wildcard inside a word.\<close>

definition wildcard :: "char \<Rightarrow> bool" where
  "wildcard c = (c = CHR ''%'' \<or> c = CHR ''_'')"

text \<open>A word that \<open>LIKE\<close> reads as it is written: no wildcard and no NUL character in it.\<close>

definition plain :: "string \<Rightarrow> bool" where
  "plain w = list_all (\<lambda>c. \<not> wildcard c \<and> c \<noteq> CHR 0x00) w"


section \<open>The database\<close>

text \<open>
  The SQLite file \<open>midwinter_unified.db\<close> is not part of the sources; its tables are
  modelled as lists of rows in the order a table scan returns them. Only the columns the
  queries of the sources read are kept. A text column that the sources test for
  truthiness or that may be \<open>NULL\<close> is an \<open>option\<close>. The schema is not part of the sources
  either: the tables other than \<open>character_relationships\<close> are taken to have no index, so
  that a statement on them reads the rows in table order. The limits of SQLite are those
  of a default build (3.46), the texts of the exceptions those of Python 3.11.
\<close>

record page =
  page_number :: int
  section_type :: string
  content :: string

record character =
  full_name :: string
  title :: "string option"
  age :: "int option"
  occupation :: "string option"
  biography :: "string option"
  search_text :: "string option"

record building =
  building_type :: string
  b_description :: "string option"
  gameplay_function :: "string option"

record enemy_vehicle =
  vehicle_type :: string
  v_role :: "string option"
  v_description :: "string option"

record skill =
  skill_name :: string

text \<open>
  A row of \<open>character_relationships\<close>; \<open>build_relationships.py\<close> declares all four
  columns \<open>TEXT NOT NULL\<close>.
\<close>

record relationship =
  from_character :: string
  to_character :: string
  relationship_type :: string
  sentiment :: string

text \<open>
  A row that a search returns to Python: \<open>r['page_number']\<close>, \<open>r['section_type']\<close>,
  \<open>r['snippet']\<close>.
\<close>

record hit =
  r_page_number :: int
  r_section_type :: string
  r_snippet :: string

text \<open>
  A row of the FTS5 table \<open>manual_fts\<close> that matches a query, with the two values the
  engine computes for it: the text of \<open>snippet(manual_fts, 2, '>>>', '<<<', '...', n)\<close>
  and the score \<open>bm25(manual_fts)\<close> (a comparison of scores is all the sources do with it;
  smaller is better).
\<close>

record fts_row =
  f_page_number :: int
  f_section_type :: string
  f_snippet :: string
  f_rank :: real

text \<open>
  The FTS5 engine is outside the sources, so the index is a parameter:
  \<open>manual_fts n q\<close> is the result of \<open>FROM manual_fts WHERE manual_fts MATCH q\<close> with
  snippets of at most \<open>n\<close> tokens, in the engine's own row order, or \<open>Inl msg\<close> when the
  statement raises an exception \<open>e\<close> with \<open>str(e) = msg\<close> (a query that is not an FTS5
  expression, an index that is missing).
\<close>

record database =
  manual_pages :: "page list"
  manual_fts :: "nat \<Rightarrow> string \<Rightarrow> string + fts_row list"
  characters :: "character list"
  buildings :: "building list"
  enemy_vehicles :: "enemy_vehicle list"
  skills :: "skill list"
  character_relationships :: "relationship list"

text \<open>
  What a process finds on disk: the path it looks at and the database there, if any.
\<close>

record environment =
  DATABASE_PATH :: string
  database_file :: "database option"

text \<open>\<open>ORDER BY rank LIMIT n\<close> and \<open>LIMIT n\<close>; rows of equal rank keep the engine's order.\<close>

definition order_by_rank :: "fts_row list \<Rightarrow> fts_row list" where
  "order_by_rank rows = sort_key f_rank rows"

definition hit_of_fts :: "fts_row \<Rightarrow> hit" where
  "hit_of_fts f = \<lparr>r_page_number = f_page_number f, r_section_type = f_section_type f,
                   r_snippet = f_snippet f\<rparr>"

text \<open>
  \<open>substr(content, 1, 500) as snippet\<close> over a row of \<open>manual_pages\<close>: the first 500
  characters of the content read as a C string.
\<close>

definition hit_of_page :: "page \<Rightarrow> hit" where
  "hit_of_page p = \<lparr>r_page_number = page_number p, r_section_type = section_type p,
                    r_snippet = take 500 (c_string (content p))\<rparr>"

text \<open>Python's truth value of a column: \<open>None\<close>, the empty string and 0 are false.\<close>

definition truthy :: "string option \<Rightarrow> bool" where
  "truthy v = (case v of None \<Rightarrow> False | Some s \<Rightarrow> s \<noteq> [])"

definition truthy_int :: "int option \<Rightarrow> bool" where
  "truthy_int v = (case v of None \<Rightarrow> False | Some i \<Rightarrow> i \<noteq> 0)"

section \<open>build\_relationships.py\<close>

definition RELATIONSHIPS :: "(string \<times> string \<times> string \<times> string) list" where
  "RELATIONSHIPS = [
  (''Captain John Stark'', ''Lieutenant Howard Courtenay'', ''friend'', ''positive''),
  (''Captain John Stark'', ''Karl Rudzinski'', ''friend'', ''positive''),
  (''Captain John Stark'', ''Nurse Sarah Maddocks'', ''lover'', ''positive''),
  (''Constable Harvey Pringle'', ''Constable Gordon Macleod'', ''regards_as_friend'', ''positive''),
  (''Constable Harvey Pringle'', ''Constable Fergus Flynn'', ''regards_as_friend'', ''positive''),
  (''Constable Harvey Pringle'', ''Jean-Luc Chabrun'', ''blames'', ''negative''),
  (''Constable Gordon Macleod'', ''Franco Grazzini'', ''dislikes'', ''negative''),
  (''Franco Grazzini'', ''Constable Gordon Macleod'', ''dislikes'', ''negative''),
  (''Sergeant George Tasker'', ''Constable Gordon Macleod'', ''respects'', ''positive''),
  (''Captain John Stark'', ''Constable Gordon Macleod'', ''respects'', ''positive''),
  (''Karl Rudzinski'', ''Virginia Caygill'', ''engaged'', ''positive''),
  (''Karl Rudzinski'', ''Jeremiah Gunn'', ''dislikes'', ''negative''),
  (''Karl Rudzinski'', ''Franco Grazzini'', ''dislikes'', ''negative''),
  (''Karl Rudzinski'', ''Captain John Stark'', ''mentor'', ''positive''),
  (''Franco Grazzini'', ''Virginia Caygill'', ''in_love'', ''positive''),
  (''Franco Grazzini'', ''Karl Rudzinski'', ''hates'', ''negative''),
  (''Franco Grazzini'', ''Nurse Sarah Maddocks'', ''admires'', ''positive''),
  (''Jean-Luc Chabrun'', ''Constable Fergus Flynn'', ''friend'', ''positive''),
  (''Jean-Luc Chabrun'', ''Constable Gordon Macleod'', ''friend'', ''positive''),
  (''Sergeant Victor Grice'', ''Jean-Luc Chabrun'', ''hates'', ''negative''),
  (''Constable Harvey Pringle'', ''Jean-Luc Chabrun'', ''hates'', ''negative''),
  (''Constable Bill Doughty'', ''Jean-Luc Chabrun'', ''hates'', ''negative''),
  (''Sergeant George Tasker'', ''Doctor Pierre Revel'', ''unforgiven'', ''negative''),
  (''Sergeant George Tasker'', ''Jeremiah Gunn'', ''disapproves'', ''negative''),
  (''Sergeant George Tasker'', ''Lieutenant Charles Ambler'', ''disapproves'', ''negative''),
  (''Lieutenant Barnaby Gaunt'', ''Sergeant Tom Llewellyn'', ''dislikes'', ''negative''),
  (''Gregory Flint'', ''Sergeant Tom Llewellyn'', ''grudge'', ''negative''),
  (''Sergeant Victor Grice'', ''Captain John Stark'', ''resents'', ''negative''),
  (''Sergeant Victor Grice'', ''Lieutenant Barnaby Gaunt'', ''resents'', ''negative''),
  (''Sergeant Victor Grice'', ''Lieutenant Howard Courtenay'', ''respects'', ''positive''),
  (''Doctor Pierre Revel'', ''Lieutenant Howard Courtenay'', ''friend'', ''positive''),
  (''Konrad Rudel'', ''Davy Hart'', ''friend'', ''positive''),
  (''Virginia Caygill'', ''Karl Rudzinski'', ''engaged'', ''positive''),
  (''Virginia Caygill'', ''Doctor Pierre Revel'', ''despises'', ''negative''),
  (''Virginia Caygill'', ''Davy Hart'', ''teacher'', ''positive''),
  (''Virginia Caygill'', ''Jenny Adams'', ''teacher'', ''positive''),
  (''Professor Olaf Kristiansen'', ''Captain John Stark'', ''dislikes'', ''negative''),
  (''Professor Olaf Kristiansen'', ''Lieutenant Howard Courtenay'', ''dislikes'', ''negative''),
  (''Professor Olaf Kristiansen'', ''Gregory Flint'', ''friend'', ''positive''),
  (''Professor Olaf Kristiansen'', ''Davy Hart'', ''grandparent'', ''positive''),
  (''Jeremiah Gunn'', ''Franco Grazzini'', ''friend'', ''positive''),
  (''Jeremiah Gunn'', ''Nurse Sarah Maddocks'', ''friend'', ''positive''),
  (''Constable Federico Garcia'', ''Constable Kurt Muller'', ''friend'', ''positive''),
  (''Constable Homer Wright'', ''Constable Kurt Muller'', ''friend'', ''positive''),
  (''Constable Homer Wright'', ''Constable Oliver Jessop'', ''friend'', ''positive''),
  (''Constable Homer Wright'', ''Constable Shigeru Iwamoto'', ''friend'', ''positive''),
  (''Constable Luke Jackson'', ''Constable Homer Wright'', ''loathes'', ''negative''),
  (''Constable Shigeru Iwamoto'', ''Constable Homer Wright'', ''friend'', ''positive''),
  (''Constable Bill Doughty'', ''Constable Kurt Muller'', ''friend'', ''positive''),
  (''Constable Bill Doughty'', ''Constable Federico Garcia'', ''friend'', ''positive''),
  (''Lieutenant Howard Courtenay'', ''Constable Bill Doughty'', ''dislikes'', ''negative''),
  (''Lieutenant Howard Courtenay'', ''Captain John Stark'', ''friend'', ''positive''),
  (''Lieutenant Howard Courtenay'', ''Virginia Caygill'', ''family'', ''positive''),
  (''Lieutenant Howard Courtenay'', ''Doctor Pierre Revel'', ''friend'', ''positive''),
  (''Davy Hart'', ''Professor Olaf Kristiansen'', ''grandchild'', ''positive''),
  (''Davy Hart'', ''Konrad Rudel'', ''hero'', ''positive''),
  (''Davy Hart'', ''Jenny Adams'', ''boyfriend'', ''positive''),
  (''Davy Hart'', ''Virginia Caygill'', ''crush'', ''positive''),
  (''Jenny Adams'', ''Nurse Sarah Maddocks'', ''admires'', ''positive''),
  (''Jenny Adams'', ''Davy Hart'', ''boyfriend'', ''positive''),
  (''Constable Bob Hammond'', ''Constable Harry Cropper'', ''friend'', ''positive''),
  (''Constable Oliver Jessop'', ''Constable Fergus Flynn'', ''dislikes'', ''negative''),
  (''Constable Oliver Jessop'', ''Constable Gordon Macleod'', ''dislikes'', ''negative''),
  (''Constable Oliver Jessop'', ''Constable Homer Wright'', ''friend'', ''positive''),
  (''Constable Oliver Jessop'', ''Constable Shigeru Iwamoto'', ''friend'', ''positive''),
  (''Lieutenant Barnaby Gaunt'', ''Captain John Stark'', ''respects'', ''positive''),
  (''Lieutenant Barnaby Gaunt'', ''Sergeant George Tasker'', ''respects'', ''positive''),
  (''Lieutenant Barnaby Gaunt'', ''Sergeant Tom Llewellyn'', ''scornful'', ''negative''),
  (''Lieutenant Barnaby Gaunt'', ''Lieutenant Charles Ambler'', ''scornful'', ''negative''),
  (''Lieutenant Barnaby Gaunt'', ''Constable Fergus Flynn'', ''scornful'', ''negative''),
  (''Lieutenant Barnaby Gaunt'', ''Constable Harry Cropper'', ''scornful'', ''negative''),
  (''Nurse Sarah Maddocks'', ''Captain John Stark'', ''lover'', ''positive''),
  (''Nurse Sarah Maddocks'', ''Franco Grazzini'', ''fond'', ''positive''),
  (''Nurse Sarah Maddocks'', ''Doctor Pierre Revel'', ''dislikes'', ''negative''),
  (''Constable Kurt Muller'', ''Constable Federico Garcia'', ''friend'', ''positive''),
  (''Constable Kurt Muller'', ''Constable Bill Doughty'', ''friend'', ''positive''),
  (''Constable Kurt Muller'', ''Constable Homer Wright'', ''friend'', ''positive''),
  (''Constable Kurt Muller'', ''Constable Shigeru Iwamoto'', ''dislikes'', ''negative''),
  (''Constable Luke Jackson'', ''Captain John Stark'', ''hates'', ''negative''),
  (''Constable Luke Jackson'', ''Constable Federico Garcia'', ''friend'', ''positive''),
  (''Constable Luke Jackson'', ''Gregory Flint'', ''friend'', ''positive''),
  (''Gregory Flint'', ''Captain John Stark'', ''blames'', ''negative''),
  (''Gregory Flint'', ''Lieutenant Barnaby Gaunt'', ''blames'', ''negative''),
  (''Gregory Flint'', ''Sergeant Tom Llewellyn'', ''blames'', ''negative''),
  (''Gregory Flint'', ''Professor Olaf Kristiansen'', ''friend'', ''positive''),
  (''Gregory Flint'', ''Constable Luke Jackson'', ''friend'', ''positive''),
  (''Gregory Flint'', ''Constable Fergus Flynn'', ''friend'', ''positive''),
  (''Lieutenant Charles Ambler'', ''Karl Rudzinski'', ''friend'', ''positive''),
  (''Lieutenant Charles Ambler'', ''Constable Harry Cropper'', ''friend'', ''positive''),
  (''Lieutenant Charles Ambler'', ''Lieutenant Barnaby Gaunt'', ''dislikes'', ''negative'')]"

text \<open>A tuple of \<open>RELATIONSHIPS\<close> as a row, and the columns of the uniqueness constraint.\<close>

definition edge :: "string \<times> string \<times> string \<times> string \<Rightarrow> relationship" where
  "edge t = (case t of (a, b, l, s) \<Rightarrow>
     \<lparr>from_character = a, to_character = b, relationship_type = l, sentiment = s\<rparr>)"

definition rel_key :: "string \<times> string \<times> string \<times> string \<Rightarrow> string \<times> string \<times> string" where
  "rel_key t = (case t of (a, b, l, s) \<Rightarrow> (a, b, l))"

text \<open>
  \<open>INSERT OR IGNORE\<close> under \<open>UNIQUE(from_character, to_character, relationship_type)\<close>:
  a tuple whose first three components are already in the table is dropped.
\<close>

definition insert_or_ignore ::
  "relationship list \<Rightarrow> string \<times> string \<times> string \<times> string \<Rightarrow> relationship list" where
  "insert_or_ignore tbl t =
     (if \<exists>r \<in> set tbl. (from_character r, to_character r, relationship_type r) = rel_key t
      then tbl
      else tbl @ [edge t])"

text \<open>
  \<open>build_relationship_database\<close>: the table is dropped, created empty and filled from
  \<open>RELATIONSHIPS\<close> in order.
\<close>

definition build_relationship_database :: "database \<Rightarrow> database" where
  "build_relationship_database d =
     d\<lparr>character_relationships := foldl insert_or_ignore [] RELATIONSHIPS\<rparr>"

section \<open>server.py: the query functions of the MCP server\<close>

text \<open>\<open>f"'{s}'"\<close>: the text between two apostrophes.\<close>

definition quoted :: "string \<Rightarrow> string" where
  "quoted s = [CHR 0x27] @ s @ [CHR 0x27]"

text \<open>
  \<open>get_db_connection\<close> raises \<open>FileNotFoundError\<close> when the database file does not exist;
  \<open>Inl\<close> carries \<open>str(e)\<close>. Every query function below catches the exception and returns
  \<open>f"Error: {str(e)}"\<close>.
\<close>

definition get_db_connection :: "environment \<Rightarrow> string + database" where
  "get_db_connection env =
     (case database_file env of
        None \<Rightarrow> Inl (''Database not found at '' @ DATABASE_PATH env)
      | Some d \<Rightarrow> Inr d)"

text \<open>
  The rows of one entity kind that \<open>quick_search\<close> prints. The loop body for a character
  is the same in \<open>server.py\<close> and in \<open>search_api_updated.py\<close> but for the length at which
  the biography is cut (300 and 500), the parameter \<open>limit\<close>.
\<close>

definition character_lines :: "nat \<Rightarrow> character \<Rightarrow> string list" where
  "character_lines limit c =
     [nl @ ''**'' @ full_name c @ ''**'']
     @ (if truthy (title c) then [''  Title: '' @ the (title c)] else [])
     @ (if truthy_int (age c) then [''  Age: '' @ str_int (the (age c))] else [])
     @ (if truthy (occupation c) then [''  Occupation: '' @ the (occupation c)] else [])
     @ (if truthy (biography c)
        then [''  Bio: '' @ (if length (the (biography c)) > limit
                             then take limit (the (biography c)) @ ''...''
                             else the (biography c))]
        else [])"

definition building_lines :: "building \<Rightarrow> string list" where
  "building_lines b =
     [nl @ ''**'' @ building_type b @ ''**'']
     @ (if truthy (b_description b) then [''  '' @ the (b_description b)] else [])
     @ (if truthy (gameplay_function b) then [''  Function: '' @ the (gameplay_function b)] else [])"

definition vehicle_lines :: "enemy_vehicle \<Rightarrow> string list" where
  "vehicle_lines v =
     [nl @ ''**'' @ vehicle_type v @ ''**'']
     @ (if truthy (v_role v) then [''  Role: '' @ the (v_role v)] else [])
     @ (if truthy (v_description v) then [''  '' @ the (v_description v)] else [])"

text \<open>
  The three \<open>SELECT ... WHERE name LIKE ? OR text LIKE ? LIMIT 10\<close> statements, both
  parameters bound to \<open>f"%{query}%"\<close>, with \<open>fetchall()\<close>; \<open>Inl\<close> is the text of the
  exception that the statement raises.
\<close>

definition select_characters :: "database \<Rightarrow> string \<Rightarrow> string + character list" where
  "select_characters d query =
     bind_text (contains_pattern query)
       (scan_limit 10 (\<lambda>c. or_else (like (contains_pattern query) (full_name c))
                                     (like_col (contains_pattern query) (search_text c)))
                   (characters d))"

definition select_buildings :: "database \<Rightarrow> string \<Rightarrow> string + building list" where
  "select_buildings d query =
     bind_text (contains_pattern query)
       (scan_limit 10 (\<lambda>b. or_else (like (contains_pattern query) (building_type b))
                                     (like_col (contains_pattern query) (b_description b)))
                   (buildings d))"

definition select_vehicles :: "database \<Rightarrow> string \<Rightarrow> string + enemy_vehicle list" where
  "select_vehicles d query =
     bind_text (contains_pattern query)
       (scan_limit 10 (\<lambda>v. or_else (like (contains_pattern query) (vehicle_type v))
                                     (like_col (contains_pattern query) (v_description v)))
                   (enemy_vehicles d))"

text \<open>
  \<open>quick_search_query\<close>: the three statements run one after the other, and the first
  exception ends the function in its \<open>except\<close> branch.
\<close>

definition quick_search_query :: "environment \<Rightarrow> string \<Rightarrow> string" where
  "quick_search_query env query =
     (case get_db_connection env of
        Inl e \<Rightarrow> ''Error: '' @ e
      | Inr d \<Rightarrow>
          (case select_characters d query of
             Inl e \<Rightarrow> ''Error: '' @ e
           | Inr chars \<Rightarrow>
               (case select_buildings d query of
                  Inl e \<Rightarrow> ''Error: '' @ e
                | Inr bs \<Rightarrow>
                    (case select_vehicles d query of
                       Inl e \<Rightarrow> ''Error: '' @ e
                     | Inr vs \<Rightarrow>
                         let results =
                               (if chars \<noteq> []
                                then ''=== CHARACTERS ==='' # concat (map (character_lines 300) chars)
                                else [])
                               @ (if bs \<noteq> []
                                  then (nl @ ''=== BUILDINGS ==='') # concat (map building_lines bs)
                                  else [])
                               @ (if vs \<noteq> []
                                  then (nl @ ''=== ENEMY VEHICLES ==='')
                                       # concat (map vehicle_lines vs)
                                  else [])
                         in if results = [] then ''No entities found matching '' @ quoted query
                            else join nl results))))"

text \<open>The two lines that every search prints for a row.\<close>

definition hit_lines :: "hit \<Rightarrow> string list" where
  "hit_lines r =
     [''**Page '' @ str_int (r_page_number r) @ ''** ['' @ r_section_type r @ '']'',
      ''  '' @ r_snippet r @ nl]"

definition search_manual_query :: "environment \<Rightarrow> string \<Rightarrow> string" where
  "search_manual_query env query =
     (case get_db_connection env of
        Inl e \<Rightarrow> ''Error: '' @ e
      | Inr d \<Rightarrow>
          (case manual_fts d 64 query of
             Inl e \<Rightarrow> ''Error: '' @ e
           | Inr rows \<Rightarrow>
               let results = map hit_of_fts (take 15 (order_by_rank rows))
               in if results = [] then ''No results found for '' @ quoted query
                  else join nl ((''Found '' @ str_nat (length results) @ '' results for ''
                                  @ quoted query @ '':'' @ nl)
                                # concat (map hit_lines results))))"

text \<open>\<open>section_map.get(section, section)\<close>: a name outside the map stands for itself.\<close>

definition section_map :: "string \<rightharpoonup> string" where
  "section_map =
     [''characters'' \<mapsto> ''character'',
      ''equipment'' \<mapsto> ''equipment'',
      ''locations'' \<mapsto> ''location'',
      ''story_sections'' \<mapsto> ''story'',
      ''general_content'' \<mapsto> ''general'']"

text \<open>
  \<open>SELECT ... FROM manual_fts WHERE manual_fts MATCH ? AND section_type LIKE ? LIMIT 15\<close>,
  the second parameter bound to \<open>f"%{section_type}%"\<close>: the rows of the index that match the
  query are tested against the pattern, in the engine's order.
\<close>

definition select_in_section :: "database \<Rightarrow> string \<Rightarrow> string \<Rightarrow> string + hit list" where
  "select_in_section d tag query =
     bind_text (contains_pattern tag)
       (case manual_fts d 64 query of
          Inl e \<Rightarrow> Inl e
        | Inr rows \<Rightarrow>
            (case scan_limit 15 (\<lambda>f. like (contains_pattern tag) (f_section_type f))
                    rows of
               Inl e \<Rightarrow> Inl e
             | Inr found \<Rightarrow> Inr (map hit_of_fts found)))"

definition filter_by_section_query :: "environment \<Rightarrow> string \<Rightarrow> string \<Rightarrow> string" where
  "filter_by_section_query env section query =
     (case get_db_connection env of
        Inl e \<Rightarrow> ''Error: '' @ e
      | Inr d \<Rightarrow>
          let section_type = (case section_map section of None \<Rightarrow> section | Some t \<Rightarrow> t)
          in (case select_in_section d section_type query of
                Inl e \<Rightarrow> ''Error: '' @ e
              | Inr results \<Rightarrow>
                  if results = []
                  then ''No results found for '' @ quoted query @ '' in section '' @ quoted section
                  else join nl ((''Found '' @ str_nat (length results) @ '' results in ''
                                  @ quoted section @ '':'' @ nl)
                                # concat (map hit_lines results))))"

text \<open>
  A Python integer is bound as an SQLite \<open>INTEGER\<close>, which has 64 bits: outside that
  range the binding raises \<open>OverflowError\<close>, with this text.
\<close>

definition sqlite_integer :: "int \<Rightarrow> bool" where
  "sqlite_integer n = (- (2 ^ 63) \<le> n \<and> n < 2 ^ 63)"

definition int_too_large :: string where
  "int_too_large = ''Python int too large to convert to SQLite INTEGER''"

text \<open>\<open>SELECT ... FROM manual_pages WHERE page_number = ?\<close> and \<open>fetchone()\<close>.\<close>

definition fetch_page :: "database \<Rightarrow> int \<Rightarrow> page option" where
  "fetch_page d n = find (\<lambda>p. page_number p = n) (manual_pages d)"

definition page_text :: "page \<Rightarrow> string" where
  "page_text row =
     ''=== Page '' @ str_int (page_number row) @ '' ['' @ section_type row @ ''] ===''
     @ nl @ nl @ content row"

definition show_page_query :: "environment \<Rightarrow> int \<Rightarrow> string" where
  "show_page_query env n =
     (case get_db_connection env of
        Inl e \<Rightarrow> ''Error: '' @ e
      | Inr d \<Rightarrow>
          if \<not> sqlite_integer n then ''Error: '' @ int_too_large
          else
            (case fetch_page d n of
               None \<Rightarrow> ''Page '' @ str_int n @ '' not found''
             | Some row \<Rightarrow> page_text row))"

text \<open>
  \<open>SELECT section_type, COUNT(*), MIN(page_number), MAX(page_number) FROM manual_pages
  GROUP BY section_type ORDER BY first_page\<close>: one row per section tag.
\<close>

definition section_groups :: "database \<Rightarrow> (string \<times> nat \<times> int \<times> int) list" where
  "section_groups d =
     sort_key (\<lambda>(s, c, lo, hi). lo)
       (map (\<lambda>s. let ns = map page_number (filter (\<lambda>p. section_type p = s) (manual_pages d))
                 in (s, length ns, fold min ns (hd ns), fold max ns (hd ns)))
            (remdups (map section_type (manual_pages d))))"

definition list_sections_query :: "environment \<Rightarrow> string" where
  "list_sections_query env =
     (case get_db_connection env of
        Inl e \<Rightarrow> ''Error: '' @ e
      | Inr d \<Rightarrow>
          join nl ([''=== MANUAL SECTIONS ==='' @ nl]
                   @ map (\<lambda>(s, c, lo, hi). ''**'' @ s @ ''**: '' @ str_nat c @ '' pages (pp. ''
                                            @ str_int lo @ ''-'' @ str_int hi @ '')'')
                         (section_groups d)
                   @ [nl @ ''**Total: '' @ str_nat (sum_list (map (\<lambda>(s, c, lo, hi). c) (section_groups d)))
                      @ '' pages**'']))"

definition list_entities_query :: "environment \<Rightarrow> string" where
  "list_entities_query env =
     (case get_db_connection env of
        Inl e \<Rightarrow> ''Error: '' @ e
      | Inr d \<Rightarrow>
          let chars = sort (map full_name (characters d));
              bs = sort (map building_type (buildings d));
              vs = sort (map vehicle_type (enemy_vehicles d));
              ss = sort (map skill_name (skills d))
          in join nl
               ([''=== CHARACTERS ('' @ str_nat (length chars) @ '') ==='', join '', '' chars,
                 nl @ ''=== BUILDINGS ('' @ str_nat (length bs) @ '') ==='', join '', '' bs,
                 nl @ ''=== ENEMY VEHICLES ('' @ str_nat (length vs) @ '') ==='', join '', '' vs]
                @ (if ss \<noteq> []
                   then [nl @ ''=== SKILLS ('' @ str_nat (length ss) @ '') ==='', join '', '' ss]
                   else [])))"

subsection \<open>The relationship graph\<close>

text \<open>
  \<open>SELECT full_name FROM characters WHERE full_name LIKE ?\<close> with \<open>f"%{name}%"\<close>, then
  \<open>fetchone()\<close>: the first matching row of the scan, if there is one. \<open>execute\<close> reads the
  table up to the first matching row and \<open>fetchone\<close> reads on to the second one before it
  returns the first.
\<close>

definition find_character :: "database \<Rightarrow> string \<Rightarrow> string + string option" where
  "find_character d name =
     bind_text (contains_pattern name)
       (case scan_limit 2 (\<lambda>c. like (contains_pattern name) (full_name c)) (characters d) of
          Inl e \<Rightarrow> Inl e
        | Inr rows \<Rightarrow> Inr (case rows of [] \<Rightarrow> None | c # cs \<Rightarrow> Some (full_name c)))"

text \<open>
  \<open>SELECT relationship_type FROM character_relationships WHERE from_character = ? AND
  to_character = ? AND sentiment = ?\<close>: the labels of the edges from \<open>a\<close> to \<open>b\<close> with
  sentiment \<open>s\<close>, in table order.
\<close>

definition edge_labels :: "database \<Rightarrow> string \<Rightarrow> string \<Rightarrow> string \<Rightarrow> string list" where
  "edge_labels d a b s =
     map relationship_type
       (filter (\<lambda>r. from_character r = a \<and> to_character r = b \<and> sentiment r = s)
               (character_relationships d))"

text \<open>
  \<open>can_recruit_query\<close>. Both names are looked up first; \<open>if not recruiter_match\<close> is true
  for \<open>None\<close> and for an empty name.
\<close>

definition can_recruit_query :: "environment \<Rightarrow> string \<Rightarrow> string \<Rightarrow> string" where
  "can_recruit_query env recruiter target =
     (case get_db_connection env of
        Inl e \<Rightarrow> ''Error: '' @ e
      | Inr d \<Rightarrow>
          (case find_character d recruiter of
             Inl e \<Rightarrow> ''Error: '' @ e
           | Inr recruiter_match \<Rightarrow>
               (case find_character d target of
                  Inl e \<Rightarrow> ''Error: '' @ e
                | Inr target_match \<Rightarrow>
                    if \<not> truthy recruiter_match
                    then ''Character '' @ quoted recruiter @ '' not found''
                    else if \<not> truthy target_match
                    then ''Character '' @ quoted target @ '' not found''
                    else
                      let r = the recruiter_match;
                          t = the target_match;
                          positive = edge_labels d r t ''positive'';
                          blocked = edge_labels d t r ''negative'';
                          output = [''=== Can '' @ r @ '' recruit '' @ t @ ''? ==='' @ nl]
                      in if blocked \<noteq> []
                         then join nl (output @ [''NO - '' @ t @ '' '' @ join '', '' blocked
                                                 @ '' '' @ r])
                         else if positive \<noteq> []
                         then join nl (output @ [''YES - '' @ r @ '' is '' @ join '', '' positive
                                                 @ '' with '' @ t])
                         else join nl (output @ [''UNKNOWN - No direct relationship found'',
                                                 ''(They are not friends, but also not enemies)'']))))"

text \<open>
  \<open>SELECT to_character, relationship_type ... WHERE from_character = ? AND sentiment = ?\<close>
  and its mirror image on \<open>to_character\<close>.
\<close>

definition edges_from :: "database \<Rightarrow> string \<Rightarrow> string \<Rightarrow> (string \<times> string) list" where
  "edges_from d a s =
     map (\<lambda>r. (to_character r, relationship_type r))
       (filter (\<lambda>r. from_character r = a \<and> sentiment r = s) (character_relationships d))"

definition edges_to :: "database \<Rightarrow> string \<Rightarrow> string \<Rightarrow> (string \<times> string) list" where
  "edges_to d b s =
     map (\<lambda>r. (from_character r, relationship_type r))
       (filter (\<lambda>r. to_character r = b \<and> sentiment r = s) (character_relationships d))"

text \<open>\<open>f"  - {name} ({relationship_type})"\<close>.\<close>

definition bullet :: "string \<times> string \<Rightarrow> string" where
  "bullet e = ''  - '' @ fst e @ '' ('' @ snd e @ '')''"

definition who_can_recruit_query :: "environment \<Rightarrow> string \<Rightarrow> string" where
  "who_can_recruit_query env target =
     (case get_db_connection env of
        Inl e \<Rightarrow> ''Error: '' @ e
      | Inr d \<Rightarrow>
          (case find_character d target of
             Inl e \<Rightarrow> ''Error: '' @ e
           | Inr None \<Rightarrow> ''Character '' @ quoted target @ '' not found''
           | Inr (Some target_match) \<Rightarrow>
               let can_recruit = edges_from d target_match ''positive'';
                   cannot_recruit = edges_from d target_match ''negative''
               in join nl
                    ([''=== Who can recruit '' @ target_match @ ''? ==='' @ nl]
                     @ (if can_recruit \<noteq> [] then ''CAN RECRUIT:'' # map bullet can_recruit
                        else [''CAN RECRUIT: No specific friends listed''])
                     @ (if cannot_recruit \<noteq> []
                        then (nl @ ''CANNOT RECRUIT:'') # map bullet cannot_recruit
                        else [nl @ ''CANNOT RECRUIT: No enemies listed'']))))"

definition get_enemies_query :: "environment \<Rightarrow> string \<Rightarrow> string" where
  "get_enemies_query env character =
     (case get_db_connection env of
        Inl e \<Rightarrow> ''Error: '' @ e
      | Inr d \<Rightarrow>
          (case find_character d character of
             Inl e \<Rightarrow> ''Error: '' @ e
           | Inr None \<Rightarrow> ''Character '' @ quoted character @ '' not found''
           | Inr (Some char_match) \<Rightarrow>
               let dislikes = edges_from d char_match ''negative'';
                   disliked_by = edges_to d char_match ''negative''
               in join nl
                    ([''=== Enemies of '' @ char_match @ '' ==='' @ nl]
                     @ (if dislikes \<noteq> [] then (char_match @ '' DISLIKES:'') # map bullet dislikes
                        else [])
                     @ (if disliked_by \<noteq> [] then (nl @ ''DISLIKED BY:'') # map bullet disliked_by
                        else [])
                     @ (if dislikes = [] \<and> disliked_by = [] then [''No enemies found!''] else []))))"

definition get_friends_query :: "environment \<Rightarrow> string \<Rightarrow> string" where
  "get_friends_query env character =
     (case get_db_connection env of
        Inl e \<Rightarrow> ''Error: '' @ e
      | Inr d \<Rightarrow>
          (case find_character d character of
             Inl e \<Rightarrow> ''Error: '' @ e
           | Inr None \<Rightarrow> ''Character '' @ quoted character @ '' not found''
           | Inr (Some char_match) \<Rightarrow>
               let friends = edges_from d char_match ''positive'';
                   liked_by = edges_to d char_match ''positive''
               in join nl
                    ([''=== Friends of '' @ char_match @ '' ==='' @ nl]
                     @ (if friends \<noteq> [] then (char_match @ '' LIKES:'') # map bullet friends
                        else [])
                     @ (if liked_by \<noteq> [] then (nl @ ''LIKED BY:'') # map bullet liked_by
                        else [])
                     @ (if friends = [] \<and> liked_by = [] then [''No friends found!''] else []))))"

subsection \<open>The dispatcher of the MCP server\<close>

text \<open>
  The \<open>arguments\<close> dictionary of a tool call, with the values typed as the tool schemas
  declare them: the text-valued keys and the integer-valued keys.
\<close>

record arguments =
  text_args :: "string \<rightharpoonup> string"
  int_args :: "string \<rightharpoonup> int"

text \<open>\<open>arguments.get(key, "")\<close> and \<open>arguments.get(key, 0)\<close>.\<close>

definition get_text :: "arguments \<Rightarrow> string \<Rightarrow> string" where
  "get_text a k = (case text_args a k of None \<Rightarrow> [] | Some v \<Rightarrow> v)"

definition get_int :: "arguments \<Rightarrow> string \<Rightarrow> int" where
  "get_int a k = (case int_args a k of None \<Rightarrow> 0 | Some v \<Rightarrow> v)"

text \<open>\<open>call_tool\<close>; the result is the text of the single \<open>TextContent\<close> it returns.\<close>

definition call_tool :: "environment \<Rightarrow> string \<Rightarrow> arguments \<Rightarrow> string" where
  "call_tool env name a =
     (if name = ''quick_search'' then quick_search_query env (get_text a ''query'')
      else if name = ''search_manual'' then search_manual_query env (get_text a ''query'')
      else if name = ''filter_by_section''
      then filter_by_section_query env (get_text a ''section'') (get_text a ''query'')
      else if name = ''show_page'' then show_page_query env (get_int a ''page_number'')
      else if name = ''list_sections'' then list_sections_query env
      else if name = ''list_entities'' then list_entities_query env
      else if name = ''can_recruit''
      then can_recruit_query env (get_text a ''recruiter'') (get_text a ''target'')
      else if name = ''who_can_recruit'' then who_can_recruit_query env (get_text a ''target'')
      else if name = ''get_enemies'' then get_enemies_query env (get_text a ''character'')
      else if name = ''get_friends'' then get_friends_query env (get_text a ''character'')
      else ''Unknown tool: '' @ name)"

section \<open>search\_api\_updated.py: the tools of the API backend\<close>

text \<open>
  \<open>sqlite3.connect(DB_PATH)\<close> does not fail when the file is absent: it opens an empty
  database, and the first statement on a table raises \<open>no such table\<close>.
\<close>

definition no_such_table :: "string \<Rightarrow> string" where
  "no_such_table t = ''no such table: '' @ t"

text \<open>
  The indexed tier of \<open>search_manual_db\<close>: the FTS statement inside its own
  \<open>try ... except: pass\<close>, so that \<open>results\<close> stays empty when the statement raises.
\<close>

definition fts_tier :: "environment \<Rightarrow> string \<Rightarrow> hit list" where
  "fts_tier env query =
     (case database_file env of
        None \<Rightarrow> []
      | Some d \<Rightarrow>
          (case manual_fts d 200 query of
             Inl e \<Rightarrow> []
           | Inr rows \<Rightarrow> map hit_of_fts (take 15 (order_by_rank rows))))"

text \<open>\<open>words = [w for w in query.split() if len(w) > 2]\<close>.\<close>

definition query_words :: "string \<Rightarrow> string list" where
  "query_words query = filter (\<lambda>w. length w > 2) (str_split query)"

text \<open>
  \<open>content LIKE ? OR content LIKE ? OR ...\<close> on one value of \<open>content\<close>, one
  \<open>f"%{word}%"\<close> per word, from left to right.
\<close>

fun any_like :: "string list \<Rightarrow> string \<Rightarrow> string + bool" where
  "any_like [] s = Inr False"
| "any_like (w # ws) s = or_else (like (contains_pattern w) s) (any_like ws s)"

text \<open>
  The substring tier: \<open>SELECT page_number, section_type, substr(content, 1, 500) FROM
  manual_pages WHERE content LIKE ? OR ... ORDER BY page_number LIMIT 15\<close>. SQLite refuses
  the statement when its expression is deeper than 1000 (\<open>SQLITE_MAX_EXPR_DEPTH\<close>), which
  1000 words reach, before it looks for the table; then the parameters are bound, and the
  whole table is read before the rows are ordered.
\<close>

definition like_tier :: "database option \<Rightarrow> string list \<Rightarrow> string + hit list" where
  "like_tier db words =
     (if 1000 \<le> length words then Inl ''Expression tree is too large (maximum depth 1000)''
      else
        (case db of
           None \<Rightarrow> Inl (no_such_table ''manual_pages'')
         | Some d \<Rightarrow>
             if \<exists>w \<in> set words. 1000000000 < utf8_length (contains_pattern w)
             then Inl ''string or blob too big''
             else
               (case scan (\<lambda>p. any_like words (content p)) (manual_pages d) of
                  Inl e \<Rightarrow> Inl e
                | Inr rows \<Rightarrow> Inr (map hit_of_page (take 15 (sort_key page_number rows))))))"

text \<open>
  The rows \<open>search_manual_db\<close> ends with, or \<open>Inl\<close> the text of the exception that
  reaches its outer \<open>except\<close>.
\<close>

definition search_manual_rows :: "environment \<Rightarrow> string \<Rightarrow> string + hit list" where
  "search_manual_rows env query =
     (let results = fts_tier env query
      in if results = [] then
           (let words = query_words query
            in if words \<noteq> [] then like_tier (database_file env) words
               else Inr results)
         else Inr results)"

definition search_manual_db :: "environment \<Rightarrow> string \<Rightarrow> string" where
  "search_manual_db env query =
     (case search_manual_rows env query of
        Inl e \<Rightarrow> ''Error: '' @ e
      | Inr results \<Rightarrow>
          if results = []
          then ''No results found for '' @ quoted query
               @ ''. Try different keywords or check spelling.''
          else join nl ((''Found '' @ str_nat (length results) @ '' results for ''
                          @ quoted query @ '':'' @ nl)
                        # concat (map hit_lines results)))"

text \<open>
  \<open>show_page_db\<close>. The statement is compiled before its parameter is bound, so that a
  missing table is reported first.
\<close>

definition show_page_db :: "environment \<Rightarrow> int \<Rightarrow> string" where
  "show_page_db env n =
     (case database_file env of
        None \<Rightarrow> ''Error: '' @ no_such_table ''manual_pages''
      | Some d \<Rightarrow>
          if \<not> sqlite_integer n then ''Error: '' @ int_too_large
          else
            (case fetch_page d n of
               None \<Rightarrow> ''Page '' @ str_int n @ '' not found. Valid pages are 1-196.''
             | Some row \<Rightarrow> page_text row))"

definition valid_sections :: "string list" where
  "valid_sections =
     [''characters'', ''equipment'', ''locations'', ''story_sections'', ''general_content'']"

text \<open>The two tiers again, each with \<open>AND section_type = ?\<close> bound to \<open>section\<close>.\<close>

definition fts_tier_in :: "environment \<Rightarrow> string \<Rightarrow> string \<Rightarrow> hit list" where
  "fts_tier_in env section query =
     (case database_file env of
        None \<Rightarrow> []
      | Some d \<Rightarrow>
          (case manual_fts d 200 query of
             Inl e \<Rightarrow> []
           | Inr rows \<Rightarrow>
               map hit_of_fts
                 (take 15 (order_by_rank (filter (\<lambda>f. f_section_type f = section) rows)))))"

text \<open>
  \<open>WHERE (content LIKE ? OR ...) AND section_type = ?\<close> is one level deeper, so that 999
  words are refused; on a row, the words are tested before the section.
\<close>

definition like_tier_in :: "database option \<Rightarrow> string \<Rightarrow> string list \<Rightarrow> string + hit list" where
  "like_tier_in db section words =
     (if 999 \<le> length words then Inl ''Expression tree is too large (maximum depth 1000)''
      else
        (case db of
           None \<Rightarrow> Inl (no_such_table ''manual_pages'')
         | Some d \<Rightarrow>
             if \<exists>w \<in> set words. 1000000000 < utf8_length (contains_pattern w)
             then Inl ''string or blob too big''
             else
               (case scan (\<lambda>p. and_then (any_like words (content p))
                                         (Inr (section_type p = section)))
                          (manual_pages d) of
                  Inl e \<Rightarrow> Inl e
                | Inr rows \<Rightarrow> Inr (map hit_of_page (take 15 (sort_key page_number rows))))))"

definition filter_by_section_db :: "environment \<Rightarrow> string \<Rightarrow> string \<Rightarrow> string" where
  "filter_by_section_db env section query =
     (if section \<notin> set valid_sections
      then ''Invalid section '' @ quoted section @ ''. Valid sections: ''
           @ join '', '' valid_sections
      else
        let results = fts_tier_in env section query;
            rows =
              (if results = [] then
                 (let words = query_words query
                  in if words \<noteq> [] then like_tier_in (database_file env) section words
                     else Inr results)
               else Inr results)
        in (case rows of
              Inl e \<Rightarrow> ''Error: '' @ e
            | Inr results \<Rightarrow>
                if results = []
                then ''No results for '' @ quoted query @ '' in '' @ section @ '' section.''
                else join nl ((''Found '' @ str_nat (length results) @ '' results for ''
                                @ quoted query @ '' in '' @ section @ '':'' @ nl)
                              # concat (map hit_lines results))))"

definition quick_search_db :: "environment \<Rightarrow> string \<Rightarrow> string" where
  "quick_search_db env query =
     (case database_file env of
        None \<Rightarrow> ''Error: '' @ no_such_table ''characters''
      | Some d \<Rightarrow>
          (case select_characters d query of
             Inl e \<Rightarrow> ''Error: '' @ e
           | Inr chars \<Rightarrow>
               let results =
                     (if chars \<noteq> []
                      then ''=== CHARACTERS ==='' # concat (map (character_lines 500) chars)
                      else [])
               in if results = [] then ''No entities found matching '' @ quoted query
                  else join nl results))"

subsection \<open>The dispatcher of the API backend\<close>

text \<open>
  An exception that leaves a tool call or the exchange with the reasoning service:
  \<open>KeyError(k)\<close> from \<open>input_data[k]\<close>, or whatever \<open>client.messages.create\<close> raises,
  with its text.
\<close>

datatype exn = KeyError string | ServiceError string

text \<open>\<open>str(e)\<close>: a \<open>KeyError\<close> prints the \<open>repr\<close> of its key.\<close>

definition str_exn :: "exn \<Rightarrow> string" where
  "str_exn e = (case e of KeyError k \<Rightarrow> quoted k | ServiceError m \<Rightarrow> m)"

text \<open>\<open>input_data[k]\<close> for a text-valued and for an integer-valued key.\<close>

definition index_text :: "arguments \<Rightarrow> string \<Rightarrow> exn + string" where
  "index_text a k = (case text_args a k of None \<Rightarrow> Inl (KeyError k) | Some v \<Rightarrow> Inr v)"

definition index_int :: "arguments \<Rightarrow> string \<Rightarrow> exn + int" where
  "index_int a k = (case int_args a k of None \<Rightarrow> Inl (KeyError k) | Some v \<Rightarrow> Inr v)"

text \<open>
  \<open>execute_tool\<close>. The arguments of a call are evaluated left to right before the tool
  function runs.
\<close>

definition execute_tool :: "environment \<Rightarrow> string \<Rightarrow> arguments \<Rightarrow> exn + string" where
  "execute_tool env name input_data =
     (if name = ''search_manual'' then
        (case index_text input_data ''query'' of
           Inl e \<Rightarrow> Inl e
         | Inr q \<Rightarrow> Inr (search_manual_db env q))
      else if name = ''show_page'' then
        (case index_int input_data ''page_number'' of
           Inl e \<Rightarrow> Inl e
         | Inr n \<Rightarrow> Inr (show_page_db env n))
      else if name = ''filter_by_section'' then
        (case index_text input_data ''section'' of
           Inl e \<Rightarrow> Inl e
         | Inr s \<Rightarrow>
             (case index_text input_data ''query'' of
                Inl e \<Rightarrow> Inl e
              | Inr q \<Rightarrow> Inr (filter_by_section_db env s q)))
      else if name = ''quick_search'' then
        (case index_text input_data ''query'' of
           Inl e \<Rightarrow> Inl e
         | Inr q \<Rightarrow> Inr (quick_search_db env q))
      else Inr (''Unknown tool: '' @ name))"

section \<open>search\_api\_updated.py: the exchange with the reasoning service\<close>

text \<open>
  A content block of a response: text, a tool request (\<open>block.id\<close>, \<open>block.name\<close>,
  \<open>block.input\<close>), or a block of another type, which has no \<open>text\<close> attribute.
\<close>

datatype block = TextBlock string | ToolUseBlock string string arguments | OtherBlock

record response =
  stop_reason :: string
  resp_content :: "block list"

text \<open>
  An item of a user message that answers tool requests: a \<open>tool_result\<close> with its
  \<open>tool_use_id\<close> and content, or a text item.
\<close>

datatype part = ToolResult string string | TextPart string

datatype message = UserText string | AssistantContent "block list" | UserParts "part list"

text \<open>
  The arguments of one \<open>client.messages.create\<close> call that vary: the model, the token
  limit, whether \<open>tools=TOOLS\<close> is passed, and the conversation. (\<open>system=SYSTEM_PROMPT\<close> is
  the same in every call.)
\<close>

record request =
  model :: string
  max_tokens :: nat
  with_tools :: bool
  messages :: "message list"

text \<open>
  The reasoning service is outside the sources: a parameter that answers a request with
  a response, or raises (\<open>Inl\<close> the text of the exception).
\<close>

type_synonym client = "request \<Rightarrow> string + response"

text \<open>
  The inner \<open>for block in response.content\<close> loop: one \<open>tool_result\<close> per \<open>tool_use\<close>
  block, in the order of the blocks; an exception of \<open>execute_tool\<close> ends it.
\<close>

fun tool_results :: "environment \<Rightarrow> block list \<Rightarrow> exn + part list" where
  "tool_results env [] = Inr []"
| "tool_results env (ToolUseBlock i name input_data # bs) =
     (case execute_tool env name input_data of
        Inl e \<Rightarrow> Inl e
      | Inr result \<Rightarrow>
          (case tool_results env bs of
             Inl e \<Rightarrow> Inl e
           | Inr rs \<Rightarrow> Inr (ToolResult i result # rs)))"
| "tool_results env (b # bs) = tool_results env bs"

text \<open>
  The \<open>while response.stop_reason == "tool_use" and rounds < max_rounds\<close> loop, which the
  three callers repeat with the bounds 2, 5 and 6. \<open>sent\<close> collects the requests sent so
  far, so that the exchanges can be counted; the result is that list together with the
  conversation and the last response, or the exception that ended the loop.
\<close>

function tool_rounds ::
  "client \<Rightarrow> environment \<Rightarrow> string \<Rightarrow> nat \<Rightarrow> nat \<Rightarrow> nat \<Rightarrow> message list \<Rightarrow> response
     \<Rightarrow> request list \<Rightarrow> request list \<times> (exn + message list \<times> response)" where
  "tool_rounds create env mdl limit max_rounds rounds msgs resp sent =
     (if stop_reason resp = ''tool_use'' \<and> rounds < max_rounds then
        (case tool_results env (resp_content resp) of
           Inl e \<Rightarrow> (sent, Inl e)
         | Inr results \<Rightarrow>
             (case create \<lparr>model = mdl, max_tokens = limit, with_tools = True,
                           messages = msgs @ [AssistantContent (resp_content resp),
                                              UserParts results]\<rparr> of
                Inl e \<Rightarrow>
                  (sent @ [\<lparr>model = mdl, max_tokens = limit, with_tools = True,
                           messages = msgs @ [AssistantContent (resp_content resp),
                                              UserParts results]\<rparr>],
                   Inl (ServiceError e))
              | Inr resp' \<Rightarrow>
                  tool_rounds create env mdl limit max_rounds (rounds + 1)
                    (msgs @ [AssistantContent (resp_content resp), UserParts results]) resp'
                    (sent @ [\<lparr>model = mdl, max_tokens = limit, with_tools = True,
                             messages = msgs @ [AssistantContent (resp_content resp),
                                                UserParts results]\<rparr>])))
      else (sent, Inr (msgs, resp)))"
  by pat_completeness auto
termination
  by (relation "measure (\<lambda>(create, env, mdl, limit, max_rounds, rounds, msgs, resp, sent).
                          max_rounds - rounds)") auto

declare tool_rounds.simps [simp del]

text \<open>
  The first request and the loop after it: \<open>messages = [{"role": "user", "content":
  query}]\<close>, one \<open>create\<close> call, then \<open>tool_rounds\<close> from \<open>rounds = 0\<close>.
\<close>

definition run_rounds ::
  "client \<Rightarrow> environment \<Rightarrow> string \<Rightarrow> nat \<Rightarrow> nat \<Rightarrow> string
     \<Rightarrow> request list \<times> (exn + message list \<times> response)" where
  "run_rounds create env mdl limit max_rounds query =
     (case create \<lparr>model = mdl, max_tokens = limit, with_tools = True,
                   messages = [UserText query]\<rparr> of
        Inl e \<Rightarrow>
          ([\<lparr>model = mdl, max_tokens = limit, with_tools = True, messages = [UserText query]\<rparr>],
           Inl (ServiceError e))
      | Inr resp \<Rightarrow>
          tool_rounds create env mdl limit max_rounds 0 [UserText query] resp
            [\<lparr>model = mdl, max_tokens = limit, with_tools = True,
              messages = [UserText query]\<rparr>])"

text \<open>The text of a response: the \<open>text\<close> of every block that has one, concatenated.\<close>

definition final_text :: "block list \<Rightarrow> string" where
  "final_text bs = concat (map (\<lambda>b. case b of TextBlock t \<Rightarrow> t | _ \<Rightarrow> []) bs)"

subsection \<open>Page references in the final text\<close>

definition is_digit :: "char \<Rightarrow> bool" where
  "is_digit c = (48 \<le> (of_char c :: nat) \<and> (of_char c :: nat) \<le> 57)"

text \<open>\<open>int(s)\<close> for a string of decimal digits.\<close>

definition int_of_digits :: "string \<Rightarrow> int" where
  "int_of_digits s = int (foldl (\<lambda>n c. 10 * n + (of_char c - 48)) 0 s)"

fun strip_prefix :: "string \<Rightarrow> string \<Rightarrow> string option" where
  "strip_prefix [] s = Some s"
| "strip_prefix (p # ps) [] = None"
| "strip_prefix (p # ps) (c # cs) = (if p = c then strip_prefix ps cs else None)"

text \<open>
  A match of \<open>\*\*Page (\d+)\*\* \[([^\]]+)\]\<close> at the start of \<open>s\<close>: the two groups and
  the text after the match.
\<close>

definition match_page_pattern :: "string \<Rightarrow> (string \<times> string \<times> string) option" where
  "match_page_pattern s =
     (case strip_prefix ''**Page '' s of
        None \<Rightarrow> None
      | Some s1 \<Rightarrow>
          if takeWhile is_digit s1 = [] then None
          else
            (case strip_prefix ''** ['' (dropWhile is_digit s1) of
               None \<Rightarrow> None
             | Some s2 \<Rightarrow>
                 if takeWhile (\<lambda>c. c \<noteq> CHR '']'') s2 = []
                    \<or> dropWhile (\<lambda>c. c \<noteq> CHR '']'') s2 = []
                 then None
                 else Some (takeWhile is_digit s1, takeWhile (\<lambda>c. c \<noteq> CHR '']'') s2,
                            tl (dropWhile (\<lambda>c. c \<noteq> CHR '']'') s2))))"

text \<open>A match of \<open>\*\*Page \d+\*\*\<close> at the start of \<open>s\<close>.\<close>

definition match_marker :: "string \<Rightarrow> bool" where
  "match_marker s =
     (case strip_prefix ''**Page '' s of
        None \<Rightarrow> False
      | Some s1 \<Rightarrow> takeWhile is_digit s1 \<noteq> []
                   \<and> strip_prefix ''**'' (dropWhile is_digit s1) \<noteq> None)"

text \<open>\<open>re.search\<close> for the marker: the offset of its first match.\<close>

fun find_marker :: "string \<Rightarrow> nat option" where
  "find_marker [] = None"
| "find_marker (c # cs) =
     (if match_marker (c # cs) then Some 0 else map_option Suc (find_marker cs))"

record citation =
  c_page_number :: int
  c_section :: string
  c_content :: string

text \<open>The dictionary built for one match; \<open>rest\<close> is \<open>final_text[match.end():]\<close>.\<close>

definition citation_of :: "string \<Rightarrow> string \<Rightarrow> string \<Rightarrow> citation" where
  "citation_of digits sec rest =
     \<lparr>c_page_number = int_of_digits digits,
      c_section = sec,
      c_content = take 500 (strip (take (case find_marker rest of None \<Rightarrow> length rest
                                                               | Some i \<Rightarrow> i) rest))\<rparr>"

text \<open>
  \<open>re.finditer\<close>: the matches from left to right, none overlapping an earlier one.
  \<open>skip\<close> counts the characters still covered by the last match.
\<close>

fun page_refs_from :: "nat \<Rightarrow> string \<Rightarrow> citation list" where
  "page_refs_from skip [] = []"
| "page_refs_from skip (c # cs) =
     (if skip > 0 then page_refs_from (skip - 1) cs
      else
        (case match_page_pattern (c # cs) of
           None \<Rightarrow> page_refs_from 0 cs
         | Some (digits, sec, rest) \<Rightarrow>
             citation_of digits sec rest # page_refs_from (length cs - length rest) cs))"

definition page_refs :: "string \<Rightarrow> citation list" where
  "page_refs s = page_refs_from 0 s"

subsection \<open>The three callers\<close>

record search_result =
  success :: bool
  sr_query :: string
  results :: "citation list"
  raw_response :: "string option"

text \<open>
  What an endpoint returns: the JSON of a success, or an error text with status 400 or
  500.
\<close>

datatype reply = Ok search_result | BadRequest string | ServerError string

text \<open>
  \<open>search_fast\<close> (at most 2 rounds). \<open>raw\<close> is the \<open>query\<close> field of the request body and
  \<open>client\<close> what \<open>get_client()\<close> returns, \<open>None\<close> without an API key. The list of
  the requests sent is returned with the reply.
\<close>

definition search_fast ::
  "client option \<Rightarrow> environment \<Rightarrow> string \<Rightarrow> request list \<times> reply" where
  "search_fast client env raw =
     (let query = strip raw
      in if query = [] then ([], BadRequest ''Query parameter required'')
         else
           (case client of
              None \<Rightarrow> ([], ServerError ''API not configured'')
            | Some create \<Rightarrow>
                (case run_rounds create env ''claude-3-5-haiku-latest'' 1024 2 query of
                   (sent, Inl e) \<Rightarrow> (sent, ServerError (str_exn e))
                 | (sent, Inr (msgs, resp)) \<Rightarrow>
                     (sent, Ok \<lparr>success = True, sr_query = query, results = [],
                               raw_response =
                                 Some (if final_text (resp_content resp) = []
                                       then ''No results found.''
                                       else final_text (resp_content resp))\<rparr>))))"

text \<open>\<open>search\<close> (at most 5 rounds).\<close>

definition search :: "client option \<Rightarrow> environment \<Rightarrow> string \<Rightarrow> request list \<times> reply" where
  "search client env raw =
     (let query = strip raw
      in if query = [] then ([], BadRequest ''Query parameter required'')
         else
           (case client of
              None \<Rightarrow> ([], ServerError ''API not configured'')
            | Some create \<Rightarrow>
                (case run_rounds create env ''claude-sonnet-4-5-20250929'' 2048 5 query of
                   (sent, Inl e) \<Rightarrow> (sent, ServerError (str_exn e))
                 | (sent, Inr (msgs, resp)) \<Rightarrow>
                     (sent, Ok \<lparr>success = True, sr_query = query,
                               results = page_refs (final_text (resp_content resp)),
                               raw_response =
                                 (if page_refs (final_text (resp_content resp)) = []
                                  then Some (final_text (resp_content resp))
                                  else None)\<rparr>))))"

section \<open>search\_api\_updated.py: asynchronous jobs\<close>

text \<open>
  A value of the dictionary \<open>search_jobs\<close>: the key \<open>status\<close> and the keys that may be
  absent.
\<close>

record job =
  status :: string
  created :: "string option"
  result :: "search_result option"
  error :: "string option"

type_synonym jobs = "string \<rightharpoonup> job"

text \<open>
  The step after the loop of \<open>run_search_job\<close>: if the last response still requests
  tools, they are run once more and one request without \<open>tools\<close> is sent, its user message
  ending with the instruction to answer.
\<close>

definition force_final ::
  "client \<Rightarrow> environment \<Rightarrow> request list \<times> (exn + message list \<times> response)
     \<Rightarrow> request list \<times> (exn + message list \<times> response)" where
  "force_final create env st =
     (case st of
        (sent, Inl e) \<Rightarrow> (sent, Inl e)
      | (sent, Inr (msgs, resp)) \<Rightarrow>
          if stop_reason resp = ''tool_use'' then
            (case tool_results env (resp_content resp) of
               Inl e \<Rightarrow> (sent, Inl e)
             | Inr rs \<Rightarrow>
                 (case create \<lparr>model = ''claude-sonnet-4-5-20250929'', max_tokens = 2048,
                               with_tools = False,
                               messages = msgs @ [AssistantContent (resp_content resp),
                                 UserParts (rs @ [TextPart
                                   ''Now provide your final answer based on all search results.''])]\<rparr> of
                    Inl e \<Rightarrow>
                      (sent @ [\<lparr>model = ''claude-sonnet-4-5-20250929'', max_tokens = 2048,
                               with_tools = False,
                               messages = msgs @ [AssistantContent (resp_content resp),
                                 UserParts (rs @ [TextPart
                                   ''Now provide your final answer based on all search results.''])]\<rparr>],
                       Inl (ServiceError e))
                  | Inr resp' \<Rightarrow>
                      (sent @ [\<lparr>model = ''claude-sonnet-4-5-20250929'', max_tokens = 2048,
                               with_tools = False,
                               messages = msgs @ [AssistantContent (resp_content resp),
                                 UserParts (rs @ [TextPart
                                   ''Now provide your final answer based on all search results.''])]\<rparr>],
                       Inr (msgs @ [AssistantContent (resp_content resp),
                              UserParts (rs @ [TextPart
                                ''Now provide your final answer based on all search results.''])],
                            resp'))))
          else (sent, Inr (msgs, resp)))"

text \<open>
  The first statement of the worker, \<open>search_jobs[job_id]['status'] = 'running'\<close>: it
  raises \<open>KeyError(job_id)\<close> when the job is not in the table.
\<close>

definition mark_running :: "jobs \<Rightarrow> string \<Rightarrow> exn + jobs" where
  "mark_running search_jobs job_id =
     (case search_jobs job_id of
        None \<Rightarrow> Inl (KeyError job_id)
      | Some j \<Rightarrow> Inr (search_jobs(job_id \<mapsto> j\<lparr>status := ''running''\<rparr>)))"

text \<open>
  \<open>run_search_job\<close> (at most 6 rounds), the worker of one job. It returns the requests it
  sent and the job table it leaves. Every exception ends in the \<open>except\<close> branch, which
  stores an error record; without a client the error record is stored directly.
\<close>

definition run_search_job ::
  "client option \<Rightarrow> environment \<Rightarrow> jobs \<Rightarrow> string \<Rightarrow> string \<Rightarrow> request list \<times> jobs" where
  "run_search_job client env search_jobs job_id query =
     (case mark_running search_jobs job_id of
        Inl e \<Rightarrow>
          ([], search_jobs(job_id \<mapsto> \<lparr>status = ''error'', created = None, result = None,
                                       error = Some (str_exn e)\<rparr>))
      | Inr running \<Rightarrow>
          (case client of
             None \<Rightarrow>
               ([], running(job_id \<mapsto> \<lparr>status = ''error'', created = None, result = None,
                                        error = Some ''API not configured''\<rparr>))
           | Some create \<Rightarrow>
               (case force_final create env
                       (run_rounds create env ''claude-sonnet-4-5-20250929'' 2048 6 query) of
                  (sent, Inl e) \<Rightarrow>
                    (sent, running(job_id \<mapsto> \<lparr>status = ''error'', created = None,
                                              result = None, error = Some (str_exn e)\<rparr>))
                | (sent, Inr (msgs, resp)) \<Rightarrow>
                    (sent, running(job_id \<mapsto>
                       \<lparr>status = ''complete'', created = None,
                        result = Some \<lparr>success = True, sr_query = query,
                                       results = page_refs (final_text (resp_content resp)),
                                       raw_response =
                                         (if page_refs (final_text (resp_content resp)) = []
                                          then Some (final_text (resp_content resp))
                                          else None)\<rparr>,
                        error = None\<rparr>)))))"

text \<open>
  \<open>search_start\<close>. The job id (\<open>str(uuid.uuid4())[:8]\<close>) and the time stamp come from
  outside; the worker thread it starts is \<open>run_search_job\<close>, which runs on its own.
\<close>

datatype start_reply = Started string string | StartRefused string

definition search_start ::
  "jobs \<Rightarrow> string \<Rightarrow> string \<Rightarrow> string \<Rightarrow> start_reply \<times> jobs" where
  "search_start search_jobs raw job_id now =
     (let query = strip raw
      in if query = [] then (StartRefused ''Query parameter required'', search_jobs)
         else (Started job_id ''pending'',
               search_jobs(job_id \<mapsto> \<lparr>status = ''pending'', created = Some now,
                                         result = None, error = None\<rparr>)))"

text \<open>
  \<open>search_status\<close>: the reply and the job table after the call. \<open>job['result']\<close> on a record
  without that key raises a \<open>KeyError\<close> that nothing catches (\<open>StatusCrash\<close>).
\<close>

datatype status_reply =
  JobNotFound
  | JobComplete search_result
  | JobError string
  | JobStatus string
  | StatusCrash

definition search_status :: "jobs \<Rightarrow> string \<Rightarrow> status_reply \<times> jobs" where
  "search_status search_jobs job_id =
     (case search_jobs job_id of
        None \<Rightarrow> (JobNotFound, search_jobs)
      | Some j \<Rightarrow>
          if status j = ''complete'' then
            (case result j of
               None \<Rightarrow> (StatusCrash, search_jobs)
             | Some r \<Rightarrow> (JobComplete r, search_jobs(job_id := None)))
          else if status j = ''error'' then
            (JobError (case error j of None \<Rightarrow> ''Unknown error'' | Some e \<Rightarrow> e),
             search_jobs(job_id := None))
          else (JobStatus (status j), search_jobs))"

text \<open>
  What the three operations keep true of the job table: a record marked complete stores a
  result.
\<close>

definition complete_has_result :: "jobs \<Rightarrow> bool" where
  "complete_has_result search_jobs =
     (\<forall>i j. search_jobs i = Some j \<and> status j = ''complete'' \<longrightarrow> result j \<noteq> None)"

section \<open>Example data\<close>

text \<open>
  A small database for the closed instances below. The tables other than the
  relationships are not in the sources: the pages, the building, the vehicle and the skill
  are made up, the character names are some of those that occur in \<open>RELATIONSHIPS\<close>, and
  the relationship table is the one that \<open>build_relationship_database\<close> builds.
\<close>

definition named :: "string \<Rightarrow> character" where
  "named n = \<lparr>full_name = n, title = None, age = None, occupation = None, biography = None,
              search_text = None\<rparr>"

definition example_pages :: "page list" where
  "example_pages =
     [\<lparr>page_number = 1, section_type = ''general'', content = ''Midwinter: the island''\<rparr>,
      \<lparr>page_number = 2, section_type = ''story'', content = ''A snow-buggy crossed the ice''\<rparr>,
      \<lparr>page_number = 3, section_type = ''equipment'', content = ''abc rifle''\<rparr>]"

text \<open>
  An index that knows one word, rejects one query as malformed and finds nothing else.
\<close>

definition example_fts :: "nat \<Rightarrow> string \<Rightarrow> string + fts_row list" where
  "example_fts n q =
     (if q = ''rifle'' then
        Inr [\<lparr>f_page_number = 3, f_section_type = ''equipment'',
              f_snippet = ''abc >>>rifle<<<'', f_rank = - 1\<rparr>,
             \<lparr>f_page_number = 1, f_section_type = ''general'',
              f_snippet = ''...the >>>rifle<<< range...'', f_rank = - 2\<rparr>]
      else if q = ''snow-buggy'' then Inl ''no such column: buggy''
      else Inr [])"

definition example_database :: database where
  "example_database =
     build_relationship_database
     \<lparr>manual_pages = example_pages,
      manual_fts = example_fts,
      characters = map named [''Captain John Stark'', ''Lieutenant Howard Courtenay'',
                              ''Karl Rudzinski'', ''Franco Grazzini'',
                              ''Constable Harvey Pringle'', ''Constable Gordon Macleod''],
      buildings = [\<lparr>building_type = ''Garage'', b_description = Some ''Stores a snow-buggy'',
                    gameplay_function = None\<rparr>],
      enemy_vehicles = [\<lparr>vehicle_type = ''Snow-buggy'', v_role = Some ''Patrol'',
                         v_description = None\<rparr>],
      skills = [\<lparr>skill_name = ''Skiing''\<rparr>],
      character_relationships = []\<rparr>"

definition example_env :: environment where
  "example_env = \<lparr>DATABASE_PATH = ''database/midwinter_unified.db'',
                   database_file = Some example_database\<rparr>"

text \<open>A manual of 196 pages, numbered from 1.\<close>

definition manual_database :: database where
  "manual_database =
     example_database\<lparr>manual_pages :=
       map (\<lambda>n. \<lparr>page_number = n, section_type = ''general'',
                     content = ''Text of page '' @ str_int n\<rparr>) [1..196]\<rparr>"

definition manual_env :: environment where
  "manual_env = \<lparr>DATABASE_PATH = ''database/midwinter_unified.db'',
                  database_file = Some manual_database\<rparr>"

text \<open>A tool call without any argument.\<close>

definition no_arguments :: arguments where
  "no_arguments = \<lparr>text_args = Map.empty, int_args = Map.empty\<rparr>"

text \<open>
  Two reasoning services: one that asks for page 1 in every response, whatever it is
  sent, and one that answers at once.
\<close>

definition tool_hungry :: client where
  "tool_hungry req =
     Inr \<lparr>stop_reason = ''tool_use'',
          resp_content = [ToolUseBlock ''toolu_01'' ''show_page''
                            \<lparr>text_args = Map.empty, int_args = [''page_number'' \<mapsto> 1]\<rparr>]\<rparr>"

definition direct_client :: client where
  "direct_client req =
     Inr \<lparr>stop_reason = ''end_turn'', resp_content = [TextBlock ''Stark is a captain.'']\<rparr>"

text \<open>
  The job table after one submission, while its worker runs, and after the worker has
  finished.
\<close>

definition pending_jobs :: jobs where
  "pending_jobs = snd (search_start Map.empty '' Who is Stark? '' ''1a2b3c4d'' ''2025-01-01T12:00:00'')"

definition running_jobs :: jobs where
  "running_jobs =
     pending_jobs(''1a2b3c4d'' \<mapsto> \<lparr>status = ''running'', created = Some ''2025-01-01T12:00:00'',
                                  result = None, error = None\<rparr>)"

definition finished_jobs :: jobs where
  "finished_jobs =
     snd (run_search_job (Some direct_client) example_env pending_jobs ''1a2b3c4d''
            ''Who is Stark?'')"

section \<open>LIKE patterns and substrings\<close>

text \<open>Evaluation of \<open>ascii_lower\<close> on capital letters.\<close>

lemma char_of_lower:
  "char_of (97::nat) = CHR ''a''" "char_of (98::nat) = CHR ''b''"
  "char_of (99::nat) = CHR ''c''" "char_of (100::nat) = CHR ''d''"
  "char_of (101::nat) = CHR ''e''" "char_of (102::nat) = CHR ''f''"
  "char_of (103::nat) = CHR ''g''" "char_of (104::nat) = CHR ''h''"
  "char_of (105::nat) = CHR ''i''" "char_of (106::nat) = CHR ''j''"
  "char_of (107::nat) = CHR ''k''" "char_of (108::nat) = CHR ''l''"
  "char_of (109::nat) = CHR ''m''" "char_of (110::nat) = CHR ''n''"
  "char_of (111::nat) = CHR ''o''" "char_of (112::nat) = CHR ''p''"
  "char_of (113::nat) = CHR ''q''" "char_of (114::nat) = CHR ''r''"
  "char_of (115::nat) = CHR ''s''" "char_of (116::nat) = CHR ''t''"
  "char_of (117::nat) = CHR ''u''" "char_of (118::nat) = CHR ''v''"
  "char_of (119::nat) = CHR ''w''" "char_of (120::nat) = CHR ''x''"
  "char_of (121::nat) = CHR ''y''" "char_of (122::nat) = CHR ''z''"
  by code_simp+

lemma pattern_percent: "pattern_compare [CHR ''%''] s"
  by (induction s) simp_all

lemma pattern_tail_prefix:
  "\<forall>c \<in> set w. \<not> wildcard c \<Longrightarrow>
     pattern_compare (w @ [CHR ''%'']) s \<longleftrightarrow> prefix (map ascii_lower w) (map ascii_lower s)"
proof (induction w arbitrary: s)
  case Nil
  then show ?case by (simp add: pattern_percent)
next
  case (Cons p ps)
  then have p: "p \<noteq> CHR ''%''" "p \<noteq> CHR ''_''" and ps: "\<forall>c \<in> set ps. \<not> wildcard c"
    by (simp_all add: wildcard_def)
  show ?case
  proof (cases s)
    case Nil
    then show ?thesis using p by simp
  next
    case (Cons c cs)
    then show ?thesis using p Cons.IH[OF ps, of cs] by simp
  qed
qed

lemma pattern_contains:
  assumes "\<forall>c \<in> set w. \<not> wildcard c"
  shows "pattern_compare (contains_pattern w) s \<longleftrightarrow> ci_substring w s"
proof (induction s)
  case Nil
  show ?case
  proof (cases w)
    case Nil
    then show ?thesis by (simp add: contains_pattern_def ci_substring_def)
  next
    case (Cons p ps)
    with assms have "p \<noteq> CHR ''%''" by (simp add: wildcard_def)
    with Cons show ?thesis by (simp add: contains_pattern_def ci_substring_def)
  qed
next
  case (Cons c cs)
  have "pattern_compare (contains_pattern w) (c # cs)
          \<longleftrightarrow> pattern_compare (w @ [CHR ''%'']) (c # cs) \<or> pattern_compare (contains_pattern w) cs"
    by (simp add: contains_pattern_def)
  also have "\<dots> \<longleftrightarrow> prefix (map ascii_lower w) (map ascii_lower (c # cs)) \<or> ci_substring w cs"
    using pattern_tail_prefix[OF assms] Cons.IH by simp
  also have "\<dots> \<longleftrightarrow> ci_substring w (c # cs)"
    by (simp add: ci_substring_def sublist_Cons_right)
  finally show ?case .
qed

text \<open>
  A pattern built from a plain word is read in full, and what it tests is whether the
  word occurs in the text before the first NUL.
\<close>

lemma c_string_plain: "plain w \<Longrightarrow> c_string (contains_pattern w) = contains_pattern w"
  by (simp add: c_string_def contains_pattern_def plain_def list_all_iff takeWhile_append2)

lemma like_matches_plain:
  assumes "plain w"
  shows "like_matches (contains_pattern w) s \<longleftrightarrow> ci_substring w (c_string s)"
proof -
  have "\<forall>c \<in> set w. \<not> wildcard c"
    using assms by (simp add: plain_def list_all_iff)
  then show ?thesis
    by (simp add: like_matches_def c_string_plain [OF assms] pattern_contains)
qed

lemma found_plain:
  "(if plain w then ci_substring w (c_string s) else like_matches (contains_pattern w) s)
   = like_matches (contains_pattern w) s"
  by (simp add: like_matches_plain)

text \<open>Lengths in bytes.\<close>

lemma utf8_length_le: "utf8_length s \<le> 2 * length s"
  by (induction s) (simp_all add: utf8_length_def)

lemma utf8_length_pattern: "utf8_length (contains_pattern w) = utf8_length w + 2"
  by (simp add: utf8_length_def contains_pattern_def)

lemma short_word: "length w \<le> 24999 \<Longrightarrow> utf8_length w \<le> 49998"
  using utf8_length_le [of w] by simp

text \<open>Within the limits, statements do not raise.\<close>

lemma like_within:
  "utf8_length w \<le> 49998 \<Longrightarrow>
     like (contains_pattern w) s = Inr (like_matches (contains_pattern w) s)"
  by (simp add: like_def utf8_length_pattern)

lemma like_col_within:
  "utf8_length w \<le> 49998 \<Longrightarrow>
     like_col (contains_pattern w) col
       = Inr (case col of None \<Rightarrow> False | Some t \<Rightarrow> like_matches (contains_pattern w) t)"
  by (simp add: like_col_def like_within utf8_length_pattern split: option.split)

lemma bind_text_within: "utf8_length w \<le> 49998 \<Longrightarrow> bind_text (contains_pattern w) run = run"
  by (simp add: bind_text_def utf8_length_pattern)

lemma scan_total: "(\<And>x. x \<in> set xs \<Longrightarrow> P x = Inr (Q x)) \<Longrightarrow> scan P xs = Inr (filter Q xs)"
  by (induction xs) simp_all

lemma scan_limit_total:
  "(\<And>x. x \<in> set xs \<Longrightarrow> P x = Inr (Q x)) \<Longrightarrow> scan_limit n P xs = Inr (take n (filter Q xs))"
proof (induction n P xs rule: scan_limit.induct)
  case (1 P xs)
  then show ?case by simp
next
  case (2 n P)
  then show ?case by simp
next
  case (3 n P x xs)
  then show ?case by (cases "Q x") simp_all
qed

lemma any_like_within:
  "\<forall>w \<in> set ws. utf8_length w \<le> 49998 \<Longrightarrow>
     any_like ws s = Inr (\<exists>w \<in> set ws. like_matches (contains_pattern w) s)"
  by (induction ws) (auto simp: like_within or_else_def)

lemma first_of_two:
  "(case take 2 (filter Q xs) of [] \<Rightarrow> None | c # cs \<Rightarrow> Some (f c)) = map_option f (find Q xs)"
  by (induction xs) (simp_all add: numeral_2_eq_2)

lemma find_character_within:
  assumes "utf8_length name \<le> 49998"
  shows "find_character d name
           = Inr (map_option full_name
                    (find (\<lambda>c. like_matches (contains_pattern name) (full_name c))
                          (characters d)))"
proof -
  have "scan_limit 2 (\<lambda>c. like (contains_pattern name) (full_name c)) (characters d)
          = Inr (take 2 (filter (\<lambda>c. like_matches (contains_pattern name) (full_name c))
                                (characters d)))"
    by (rule scan_limit_total) (simp add: like_within [OF assms])
  then show ?thesis
    by (simp add: find_character_def bind_text_within [OF assms] first_of_two)
qed

section \<open>Facts about the example data\<close>

lemma get_db_connection_Some: "database_file env = Some d \<Longrightarrow> get_db_connection env = Inr d"
  by (simp add: get_db_connection_def)

lemma example_db: "database_file example_env = Some example_database"
  by (simp add: example_env_def)

lemma example_characters:
  "characters example_database
     = map named [''Captain John Stark'', ''Lieutenant Howard Courtenay'', ''Karl Rudzinski'',
                  ''Franco Grazzini'', ''Constable Harvey Pringle'', ''Constable Gordon Macleod'']"
  by (simp add: example_database_def build_relationship_database_def)

lemma example_entities:
  "buildings example_database
     = [\<lparr>building_type = ''Garage'', b_description = Some ''Stores a snow-buggy'',
         gameplay_function = None\<rparr>]"
  "enemy_vehicles example_database
     = [\<lparr>vehicle_type = ''Snow-buggy'', v_role = Some ''Patrol'', v_description = None\<rparr>]"
  "skills example_database = [\<lparr>skill_name = ''Skiing''\<rparr>]"
  by (simp_all add: example_database_def build_relationship_database_def)

lemma example_pages_of: "manual_pages example_database = example_pages"
  by (simp add: example_database_def build_relationship_database_def)

lemma example_fts_of: "manual_fts example_database = example_fts"
  by (simp add: example_database_def build_relationship_database_def)

lemma example_characters_found:
  "find_character example_database ''Stark'' = Inr (Some ''Captain John Stark'')"
  "find_character example_database ''Courtenay'' = Inr (Some ''Lieutenant Howard Courtenay'')"
  "find_character example_database ''Rudzinski'' = Inr (Some ''Karl Rudzinski'')"
  "find_character example_database ''Grazzini'' = Inr (Some ''Franco Grazzini'')"
  "find_character example_database ''Macleod'' = Inr (Some ''Constable Gordon Macleod'')"
  "find_character example_database ''Pringle'' = Inr (Some ''Constable Harvey Pringle'')"
  by (simp_all add: find_character_within short_word example_characters named_def
        like_matches_def c_string_def contains_pattern_def ascii_lower_def)

section \<open>The relationship table that is built\<close>

lemma insert_or_ignore_new:
  "rel_key t \<notin> rel_key ` set ts \<Longrightarrow>
     insert_or_ignore (map edge ts) t = map edge ts @ [edge t]"
  by (cases t) (force simp: insert_or_ignore_def edge_def rel_key_def split: prod.splits)

lemma foldl_insert_distinct:
  "distinct (map rel_key (acc @ ts)) \<Longrightarrow>
     foldl insert_or_ignore (map edge acc) ts = map edge (acc @ ts)"
proof (induction ts arbitrary: acc)
  case Nil
  then show ?case by simp
next
  case (Cons t ts)
  have "rel_key t \<notin> rel_key ` set acc"
    using Cons.prems by auto
  then have "insert_or_ignore (map edge acc) t = map edge (acc @ [t])"
    by (simp add: insert_or_ignore_new)
  moreover have "distinct (map rel_key ((acc @ [t]) @ ts))"
    using Cons.prems by simp
  ultimately show ?case
    using Cons.IH [of "acc @ [t]"] by simp
qed

text \<open>
  No two tuples of \<open>RELATIONSHIPS\<close> agree on source, destination and label, so the table
  that is built holds all 90 of them, in order.
\<close>

lemma distinct_keys: "distinct (map rel_key RELATIONSHIPS)"
  by code_simp

lemma built_table:
  "character_relationships (build_relationship_database d) = map edge RELATIONSHIPS"
  using foldl_insert_distinct [of "[]" RELATIONSHIPS] distinct_keys
  by (simp add: build_relationship_database_def)

lemma example_edges: "character_relationships example_database = map edge RELATIONSHIPS"
  by (simp add: example_database_def built_table)

lemma example_labels:
  "edge_labels example_database ''Franco Grazzini'' ''Karl Rudzinski'' ''negative'' = [''hates'']"
  "edge_labels example_database ''Lieutenant Howard Courtenay'' ''Captain John Stark''
     ''negative'' = []"
  "edge_labels example_database ''Captain John Stark'' ''Lieutenant Howard Courtenay''
     ''positive'' = [''friend'']"
  "edge_labels example_database ''Constable Harvey Pringle'' ''Constable Gordon Macleod''
     ''negative'' = []"
  "edge_labels example_database ''Constable Gordon Macleod'' ''Constable Harvey Pringle''
     ''positive'' = []"
  by (simp_all add: edge_labels_def example_edges RELATIONSHIPS_def edge_def)

section \<open>The relationship graph: recruitment\<close>

lemma exists_edge_iff:
  "(\<exists>e \<in> set (character_relationships d).
       from_character e = a \<and> to_character e = b \<and> sentiment e = s)
   \<longleftrightarrow> edge_labels d a b s \<noteq> []"
  by (auto simp: edge_labels_def filter_empty_conv)

lemma can_recruit_resolved:
  assumes db: "database_file env = Some d"
    and r: "find_character d recruiter = Inr (Some r)" "r \<noteq> []"
    and t: "find_character d target = Inr (Some t)" "t \<noteq> []"
  shows "can_recruit_query env recruiter target =
     ''=== Can '' @ r @ '' recruit '' @ t @ ''? ==='' @ nl @ nl
     @ (if edge_labels d t r ''negative'' \<noteq> []
        then ''NO - '' @ t @ '' '' @ join '', '' (edge_labels d t r ''negative'') @ '' '' @ r
        else if edge_labels d r t ''positive'' \<noteq> []
        then ''YES - '' @ r @ '' is '' @ join '', '' (edge_labels d r t ''positive'')
             @ '' with '' @ t
        else ''UNKNOWN - No direct relationship found'' @ nl
             @ ''(They are not friends, but also not enemies)'')"
proof -
  have conn: "get_db_connection env = Inr d"
    using db by (rule get_db_connection_Some)
  have found: "truthy (Some r)" "truthy (Some t)"
    using r(2) t(2) by (simp_all add: truthy_def)
  show ?thesis
    unfolding can_recruit_query_def conn Let_def
    using found by (simp add: r(1) t(1))
qed

text \<open>
  Claim C1. Once both names are resolved to characters \<open>r\<close> (recruiter) and \<open>t\<close>
  (target), \<open>can_recruit_query\<close> answers block-before-permit: if some edge from \<open>t\<close>
  to \<open>r\<close> is negative the answer is NO, followed by the labels of all such edges, also
  when a positive edge from \<open>r\<close> to \<open>t\<close> exists; otherwise, if some edge from \<open>r\<close> to
  \<open>t\<close> is positive the answer is YES with the labels of all such edges; otherwise the
  answer is UNKNOWN.
\<close>

theorem can_recruit_precedence:
  assumes db: "database_file env = Some d"
    and r: "find_character d recruiter = Inr (Some r)" "r \<noteq> []"
    and t: "find_character d target = Inr (Some t)" "t \<noteq> []"
  shows "can_recruit_query env recruiter target =
     (let edges = character_relationships d;
          blocked = filter (\<lambda>e. from_character e = t \<and> to_character e = r
                                  \<and> sentiment e = ''negative'') edges;
          positive = filter (\<lambda>e. from_character e = r \<and> to_character e = t
                                   \<and> sentiment e = ''positive'') edges;
          header = ''=== Can '' @ r @ '' recruit '' @ t @ ''? ==='' @ nl @ nl
      in if \<exists>e \<in> set edges. from_character e = t \<and> to_character e = r
                                \<and> sentiment e = ''negative''
         then header @ ''NO - '' @ t @ '' '' @ join '', '' (map relationship_type blocked)
              @ '' '' @ r
         else if \<exists>e \<in> set edges. from_character e = r \<and> to_character e = t
                                     \<and> sentiment e = ''positive''
         then header @ ''YES - '' @ r @ '' is '' @ join '', '' (map relationship_type positive)
              @ '' with '' @ t
         else header @ ''UNKNOWN - No direct relationship found'' @ nl
              @ ''(They are not friends, but also not enemies)'')"
  unfolding Let_def exists_edge_iff can_recruit_resolved [OF assms]
  by (simp add: edge_labels_def)

text \<open>
  On the table built from \<open>RELATIONSHIPS\<close>: Grazzini hates Rudzinski, so Rudzinski cannot
  recruit him; Stark is a friend of Courtenay, who holds nothing against him, so Stark
  can.
\<close>

theorem can_recruit_precedence_witness:
  "database_file example_env = Some example_database
   \<and> find_character example_database ''Rudzinski'' = Inr (Some ''Karl Rudzinski'')
   \<and> find_character example_database ''Grazzini'' = Inr (Some ''Franco Grazzini'')
   \<and> can_recruit_query example_env ''Rudzinski'' ''Grazzini''
       = ''=== Can Karl Rudzinski recruit Franco Grazzini? ==='' @ nl @ nl
         @ ''NO - Franco Grazzini hates Karl Rudzinski''
   \<and> can_recruit_query example_env ''Stark'' ''Courtenay''
       = ''=== Can Captain John Stark recruit Lieutenant Howard Courtenay? ==='' @ nl @ nl
         @ ''YES - Captain John Stark is friend with Lieutenant Howard Courtenay''"
proof -
  note labels = example_labels [unfolded edge_labels_def]
  have no: "can_recruit_query example_env ''Rudzinski'' ''Grazzini''
       = ''=== Can Karl Rudzinski recruit Franco Grazzini? ==='' @ nl @ nl
         @ ''NO - Franco Grazzini hates Karl Rudzinski''"
    using can_recruit_precedence [OF example_db example_characters_found(3) _
            example_characters_found(4)] labels(1)
    by (simp add: Let_def exists_edge_iff edge_labels_def)
  have yes: "can_recruit_query example_env ''Stark'' ''Courtenay''
       = ''=== Can Captain John Stark recruit Lieutenant Howard Courtenay? ==='' @ nl @ nl
         @ ''YES - Captain John Stark is friend with Lieutenant Howard Courtenay''"
    using can_recruit_precedence [OF example_db example_characters_found(1) _
            example_characters_found(2)] labels(2,3)
    by (simp add: Let_def exists_edge_iff edge_labels_def)
  from example_db example_characters_found(3,4) no yes show ?thesis by simp
qed

text \<open>
  Claim C5, as the code has it. For resolved names, \<open>can_recruit_query\<close> answers UNKNOWN
  exactly when there is neither a negative edge from the target to the recruiter nor a
  positive edge from the recruiter to the target. No other edge between the two is
  looked at: a positive edge from the target to the recruiter, or a negative edge from
  the recruiter to the target, leaves the answer UNKNOWN.
\<close>

theorem can_recruit_unknown_iff:
  assumes db: "database_file env = Some d"
    and r: "find_character d recruiter = Inr (Some r)" "r \<noteq> []"
    and t: "find_character d target = Inr (Some t)" "t \<noteq> []"
  shows "can_recruit_query env recruiter target
           = ''=== Can '' @ r @ '' recruit '' @ t @ ''? ==='' @ nl @ nl
             @ ''UNKNOWN - No direct relationship found'' @ nl
             @ ''(They are not friends, but also not enemies)''
         \<longleftrightarrow>
         \<not> (\<exists>e \<in> set (character_relationships d).
               from_character e = t \<and> to_character e = r \<and> sentiment e = ''negative'')
         \<and> \<not> (\<exists>e \<in> set (character_relationships d).
                 from_character e = r \<and> to_character e = t \<and> sentiment e = ''positive'')"
  unfolding exists_edge_iff can_recruit_resolved [OF assms]
  by simp

text \<open>
  Macleod and Pringle: no edge from Macleod to Pringle, and none from Pringle that is
  negative.
\<close>

theorem can_recruit_unknown_iff_witness:
  "database_file example_env = Some example_database
   \<and> find_character example_database ''Macleod'' = Inr (Some ''Constable Gordon Macleod'')
   \<and> find_character example_database ''Pringle'' = Inr (Some ''Constable Harvey Pringle'')
   \<and> can_recruit_query example_env ''Macleod'' ''Pringle''
       = ''=== Can Constable Gordon Macleod recruit Constable Harvey Pringle? ===''
         @ nl @ nl @ ''UNKNOWN - No direct relationship found'' @ nl
         @ ''(They are not friends, but also not enemies)''"
  using can_recruit_unknown_iff [OF example_db example_characters_found(5) _
          example_characters_found(6)] example_labels(4,5)
  by (simp add: example_db example_characters_found exists_edge_iff)

text \<open>
  The claim as stated fails: \<open>RELATIONSHIPS\<close> records that Pringle regards Macleod as a
  friend, and yet the answer to whether Macleod can recruit Pringle is UNKNOWN.
\<close>

theorem unknown_despite_edge_counterexample:
  "edge (''Constable Harvey Pringle'', ''Constable Gordon Macleod'', ''regards_as_friend'',
         ''positive'') \<in> set (character_relationships example_database)
   \<and> can_recruit_query example_env ''Macleod'' ''Pringle''
       = ''=== Can Constable Gordon Macleod recruit Constable Harvey Pringle? ===''
         @ nl @ nl @ ''UNKNOWN - No direct relationship found'' @ nl
         @ ''(They are not friends, but also not enemies)''"
proof -
  have "(''Constable Harvey Pringle'', ''Constable Gordon Macleod'', ''regards_as_friend'',
         ''positive'') \<in> set RELATIONSHIPS"
    by (simp add: RELATIONSHIPS_def)
  then have "edge (''Constable Harvey Pringle'', ''Constable Gordon Macleod'',
                   ''regards_as_friend'', ''positive'')
             \<in> set (character_relationships example_database)"
    unfolding example_edges by (simp only: set_map) (rule imageI)
  moreover have "can_recruit_query example_env ''Macleod'' ''Pringle''
       = ''=== Can Constable Gordon Macleod recruit Constable Harvey Pringle? ===''
         @ nl @ nl @ ''UNKNOWN - No direct relationship found'' @ nl
         @ ''(They are not friends, but also not enemies)''"
    using can_recruit_resolved [OF example_db example_characters_found(5) _
            example_characters_found(6)] example_labels(4,5)
    by simp
  ultimately show ?thesis by simp
qed

section \<open>Manual search: the two tiers\<close>

lemma sorted_take_sort_key: "sorted (map f (take n (sort_key f xs)))"
proof -
  have "sorted (take n (map f (sort_key f xs)))"
    by (rule sorted_wrt_take) (rule sorted_sort_key)
  then show ?thesis by (simp add: take_map)
qed

text \<open>
  Within the limits of SQLite the substring tier returns rows: the pages that some word
  matches, the first 15 by page number.
\<close>

lemma like_tier_within:
  assumes few: "length words < 1000"
    and short: "\<forall>w \<in> set words. utf8_length w \<le> 49998"
  shows "like_tier (Some d) words =
     Inr (map hit_of_page
            (take 15 (sort_key page_number
               (filter (\<lambda>p. \<exists>w \<in> set words. like_matches (contains_pattern w) (content p))
                       (manual_pages d)))))"
proof -
  have bound: "\<not> (\<exists>w \<in> set words. 1000000000 < utf8_length (contains_pattern w))"
    using short by (auto simp: utf8_length_pattern)
  have "scan (\<lambda>p. any_like words (content p)) (manual_pages d)
          = Inr (filter (\<lambda>p. \<exists>w \<in> set words. like_matches (contains_pattern w) (content p))
                        (manual_pages d))"
    by (rule scan_total) (simp add: any_like_within [OF short])
  then show ?thesis
    using few bound by (simp add: like_tier_def)
qed

lemma fts_tier_rows:
  "database_file env = Some d \<Longrightarrow> manual_fts d 200 query = Inr frows \<Longrightarrow>
     fts_tier env query = map hit_of_fts (take 15 (sort_key f_rank frows))"
  by (simp add: fts_tier_def order_by_rank_def)

lemma take_sort_key_Nil: "take 15 (sort_key f xs) = [] \<longleftrightarrow> xs = []"
proof -
  have "sort_key f xs = [] \<longleftrightarrow> xs = []"
    by (metis length_sort length_0_conv)
  then show ?thesis by (simp add: take_eq_Nil)
qed

text \<open>
  Claim C4, as the code has it. With the database present: whenever the index yields
  rows, \<open>search_manual_db\<close> works on the 15 best of them in ascending order of score.
  When the index yields none or raises, and the query has fewer than 1000 words of more
  than two characters, none of them longer than 49998 bytes (the limits within which
  SQLite runs the statement), it works on the first 15 pages, in ascending page number,
  that one of these words matches, with the first 500 characters of the content as
  snippet. A word without \<open>%\<close>, \<open>_\<close> and NUL matches a page when it occurs in the content
  as a substring up to ASCII case; any other word matches as the LIKE pattern
  \<open>%word%\<close>, not as a substring (see the counterexample below). SQLite reads the content up
  to its first NUL character.
\<close>

theorem search_manual_tiers:
  assumes db: "database_file env = Some d"
  shows
    "(\<forall>frows. manual_fts d 200 query = Inr frows \<and> frows \<noteq> [] \<longrightarrow>
        search_manual_rows env query = Inr (map hit_of_fts (take 15 (sort_key f_rank frows)))
        \<and> sorted (map f_rank (take 15 (sort_key f_rank frows)))
        \<and> length (take 15 (sort_key f_rank frows)) \<le> 15)
     \<and> ((manual_fts d 200 query = Inr [] \<or> (\<exists>e. manual_fts d 200 query = Inl e))
        \<and> length (query_words query) < 1000
        \<and> (\<forall>w \<in> set (query_words query). utf8_length w \<le> 49998) \<longrightarrow>
          (let found = (\<lambda>w s. if plain w then ci_substring w (c_string s)
                               else like_matches (contains_pattern w) s);
               matching = filter (\<lambda>p. \<exists>w \<in> set (query_words query). found w (content p))
                                 (manual_pages d);
               pages = take 15 (sort_key page_number matching)
           in search_manual_rows env query
                = Inr (map (\<lambda>p. \<lparr>r_page_number = page_number p, r_section_type = section_type p,
                                   r_snippet = take 500 (c_string (content p))\<rparr>) pages)
              \<and> sorted (map page_number pages)
              \<and> length pages \<le> 15))"
proof (intro conjI allI impI)
  fix frows
  assume a: "manual_fts d 200 query = Inr frows \<and> frows \<noteq> []"
  then have "fts_tier env query = map hit_of_fts (take 15 (sort_key f_rank frows))"
    using db by (simp add: fts_tier_rows)
  moreover have "take 15 (sort_key f_rank frows) \<noteq> []"
    using a take_sort_key_Nil[of f_rank frows] by blast
  ultimately show "search_manual_rows env query
      = Inr (map hit_of_fts (take 15 (sort_key f_rank frows)))"
    by (simp add: search_manual_rows_def)
  show "sorted (map f_rank (take 15 (sort_key f_rank frows)))"
    by (rule sorted_take_sort_key)
  show "length (take 15 (sort_key f_rank frows)) \<le> 15"
    by simp
next
  assume a: "(manual_fts d 200 query = Inr [] \<or> (\<exists>e. manual_fts d 200 query = Inl e))
        \<and> length (query_words query) < 1000
        \<and> (\<forall>w \<in> set (query_words query). utf8_length w \<le> 49998)"
  then have empty: "fts_tier env query = []"
    using db by (auto simp: fts_tier_def order_by_rank_def)
  from a have few: "length (query_words query) < 1000"
    and short: "\<forall>w \<in> set (query_words query). utf8_length w \<le> 49998"
    by simp_all
  note tier = like_tier_within [OF few short, of d]
  have rows: "search_manual_rows env query
      = Inr (map hit_of_page
               (take 15 (sort_key page_number
                  (filter (\<lambda>p. \<exists>w \<in> set (query_words query).
                                  like_matches (contains_pattern w) (content p))
                          (manual_pages d)))))"
  proof (cases "query_words query = []")
    case True
    then show ?thesis using empty by (simp add: search_manual_rows_def)
  next
    case False
    then show ?thesis using empty db tier by (simp add: search_manual_rows_def)
  qed
  have same: "filter (\<lambda>p. \<exists>w \<in> set (query_words query).
                             like_matches (contains_pattern w) (content p)) (manual_pages d)
            = filter (\<lambda>p. \<exists>w \<in> set (query_words query).
                             (if plain w then ci_substring w (c_string (content p))
                              else like_matches (contains_pattern w) (content p)))
                     (manual_pages d)"
    by (simp add: found_plain)
  show "let found = (\<lambda>w s. if plain w then ci_substring w (c_string s)
                               else like_matches (contains_pattern w) s);
               matching = filter (\<lambda>p. \<exists>w \<in> set (query_words query). found w (content p))
                                 (manual_pages d);
               pages = take 15 (sort_key page_number matching)
           in search_manual_rows env query
                = Inr (map (\<lambda>p. \<lparr>r_page_number = page_number p, r_section_type = section_type p,
                                   r_snippet = take 500 (c_string (content p))\<rparr>) pages)
              \<and> sorted (map page_number pages)
              \<and> length pages \<le> 15"
    unfolding Let_def rows same
    by (simp add: hit_of_page_def sorted_take_sort_key del: take_map)
qed

lemma example_words:
  "query_words ''snow-buggy'' = [''snow-buggy'']"
  "query_words ''50% rifle'' = [''50%'', ''rifle'']"
  "query_words ''a_c'' = [''a_c'']"
  by (simp_all add: query_words_def str_split_def is_space_def)

lemma example_plain:
  "plain ''snow-buggy''" "plain ''rifle''" "\<not> plain ''50%''" "plain ''snow''"
  by (simp_all add: plain_def wildcard_def)

text \<open>
  Three queries on the example database: \<open>rifle\<close> is answered from the index, best score
  first; \<open>snow-buggy\<close>, on which the index raises, is answered by the substring tier; and
  in \<open>50% rifle\<close>, which the index does not know, the word \<open>rifle\<close> is found as a
  substring of page 3 while \<open>50%\<close> is a pattern that matches no page.
\<close>

theorem search_manual_tiers_witness:
  "database_file example_env = Some example_database
   \<and> manual_fts example_database 200 ''rifle''
       = Inr [\<lparr>f_page_number = 3, f_section_type = ''equipment'',
                f_snippet = ''abc >>>rifle<<<'', f_rank = - 1\<rparr>,
               \<lparr>f_page_number = 1, f_section_type = ''general'',
                f_snippet = ''...the >>>rifle<<< range...'', f_rank = - 2\<rparr>]
   \<and> search_manual_rows example_env ''rifle''
       = Inr [\<lparr>r_page_number = 1, r_section_type = ''general'',
                r_snippet = ''...the >>>rifle<<< range...''\<rparr>,
               \<lparr>r_page_number = 3, r_section_type = ''equipment'',
                r_snippet = ''abc >>>rifle<<<''\<rparr>]
   \<and> manual_fts example_database 200 ''snow-buggy'' = Inl ''no such column: buggy''
   \<and> query_words ''snow-buggy'' = [''snow-buggy'']
   \<and> search_manual_rows example_env ''snow-buggy''
       = Inr [\<lparr>r_page_number = 2, r_section_type = ''story'',
                r_snippet = ''A snow-buggy crossed the ice''\<rparr>]
   \<and> manual_fts example_database 200 ''50% rifle'' = Inr []
   \<and> query_words ''50% rifle'' = [''50%'', ''rifle'']
   \<and> search_manual_rows example_env ''50% rifle''
       = Inr [\<lparr>r_page_number = 3, r_section_type = ''equipment'', r_snippet = ''abc rifle''\<rparr>]"
proof -
  have raises: "manual_fts example_database 200 ''snow-buggy'' = Inl ''no such column: buggy''"
    by (simp add: example_fts_of example_fts_def)
  have tier2: "search_manual_rows example_env ''snow-buggy''
       = Inr [\<lparr>r_page_number = 2, r_section_type = ''story'',
                r_snippet = ''A snow-buggy crossed the ice''\<rparr>]"
    using raises search_manual_tiers [OF example_db, of "''snow-buggy''"]
    by (simp add: example_words example_plain short_word example_pages_of example_pages_def
          ci_substring_def c_string_def ascii_lower_def sublist_Cons_right)
  have unindexed: "manual_fts example_database 200 ''50% rifle'' = Inr []"
    by (simp add: example_fts_of example_fts_def)
  have within: "(manual_fts example_database 200 ''50% rifle'' = Inr []
                  \<or> (\<exists>e. manual_fts example_database 200 ''50% rifle'' = Inl e))
                 \<and> length (query_words ''50% rifle'') < 1000
                 \<and> (\<forall>w \<in> set (query_words ''50% rifle''). utf8_length w \<le> 49998)"
    using unindexed by (simp add: example_words short_word)
  have mixed: "search_manual_rows example_env ''50% rifle''
       = Inr [\<lparr>r_page_number = 3, r_section_type = ''equipment'', r_snippet = ''abc rifle''\<rparr>]"
    using search_manual_tiers [OF example_db, of "''50% rifle''", THEN conjunct2, rule_format,
            OF within]
    by (simp add: example_words example_plain example_pages_of example_pages_def
          ci_substring_def c_string_def ascii_lower_def sublist_Cons_right like_matches_def
          contains_pattern_def)
  have fts: "manual_fts example_database 200 ''rifle''
       = Inr [\<lparr>f_page_number = 3, f_section_type = ''equipment'',
                f_snippet = ''abc >>>rifle<<<'', f_rank = - 1\<rparr>,
               \<lparr>f_page_number = 1, f_section_type = ''general'',
                f_snippet = ''...the >>>rifle<<< range...'', f_rank = - 2\<rparr>]"
    by (simp add: example_fts_of example_fts_def)
  have "search_manual_rows example_env ''rifle''
       = Inr [\<lparr>r_page_number = 1, r_section_type = ''general'',
                r_snippet = ''...the >>>rifle<<< range...''\<rparr>,
               \<lparr>r_page_number = 3, r_section_type = ''equipment'',
                r_snippet = ''abc >>>rifle<<<''\<rparr>]"
    using fts search_manual_tiers [OF example_db, of "''rifle''"]
    by (simp add: hit_of_fts_def)
  with example_db fts raises tier2 unindexed mixed example_words show ?thesis by simp
qed

text \<open>
  The claim as stated fails for a word with a wildcard: the word \<open>a_c\<close> is no substring
  of the content of page 3, and yet the fallback tier returns page 3.
\<close>

theorem like_wildcard_counterexample:
  "manual_fts example_database 200 ''a_c'' = Inr []
   \<and> query_words ''a_c'' = [''a_c'']
   \<and> search_manual_rows example_env ''a_c''
       = Inr [\<lparr>r_page_number = 3, r_section_type = ''equipment'', r_snippet = ''abc rifle''\<rparr>]
   \<and> \<not> ci_substring ''a_c'' ''abc rifle''"
proof -
  have 1: "manual_fts example_database 200 ''a_c'' = Inr []"
    by (simp add: example_fts_of example_fts_def)
  have 2: "query_words ''a_c'' = [''a_c'']"
    by (rule example_words)
  have 3: "fts_tier example_env ''a_c'' = []"
    by (simp add: fts_tier_def example_db 1 order_by_rank_def)
  have 4: "search_manual_rows example_env ''a_c''
       = Inr [\<lparr>r_page_number = 3, r_section_type = ''equipment'', r_snippet = ''abc rifle''\<rparr>]"
    by (simp add: search_manual_rows_def 2 3 example_db like_tier_within short_word
          example_pages_of example_pages_def like_matches_def c_string_def contains_pattern_def
          hit_of_page_def ascii_lower_def)
  have 5: "\<not> ci_substring ''a_c'' ''abc rifle''"
    by (simp add: ci_substring_def ascii_lower_def sublist_Cons_right)
  from 1 2 4 5 show ?thesis by simp
qed

text \<open>
  Claim C10. When every word of the query has at most two characters and the indexed
  tier yields nothing, \<open>search_manual_db\<close> answers with the no-results sentence, whatever
  the pages contain (and also without a database, where a query on \<open>manual_pages\<close> would
  raise): the substring tier is not run.
\<close>

theorem short_words_no_fallback:
  assumes short: "\<forall>w \<in> set (str_split query). length w \<le> 2"
    and empty: "fts_tier env query = []"
  shows "search_manual_db env query
           = ''No results found for '' @ quoted query
             @ ''. Try different keywords or check spelling.''"
proof -
  have "query_words query = []"
    using short by (auto simp: query_words_def filter_empty_conv)
  then show ?thesis
    using empty by (simp add: search_manual_db_def search_manual_rows_def)
qed

text \<open>
  The query \<open>ab\<close> finds nothing although page 3 contains it.
\<close>

theorem short_words_no_fallback_witness:
  "str_split ''ab'' = [''ab'']
   \<and> fts_tier example_env ''ab'' = []
   \<and> like (contains_pattern ''ab'') ''abc rifle'' = Inr True
   \<and> search_manual_db example_env ''ab''
       = ''No results found for '' @ quoted ''ab''
         @ ''. Try different keywords or check spelling.''"
proof -
  have 1: "\<forall>w \<in> set (str_split ''ab''). length w \<le> 2"
    by (simp add: str_split_def is_space_def)
  have 2: "fts_tier example_env ''ab'' = []"
    by (simp add: fts_tier_def example_db example_fts_of example_fts_def order_by_rank_def)
  have "like (contains_pattern ''ab'') ''abc rifle''
          = Inr (like_matches (contains_pattern ''ab'') ''abc rifle'')"
    by (rule like_within) (simp add: short_word)
  then have 3: "like (contains_pattern ''ab'') ''abc rifle'' = Inr True"
    by (simp add: like_matches_def c_string_def contains_pattern_def ascii_lower_def)
  have 4: "str_split ''ab'' = [''ab'']"
    by (simp add: str_split_def is_space_def)
  from 2 3 4 short_words_no_fallback [OF 1 2] show ?thesis by simp
qed

section \<open>Section names\<close>

lemma section_map_unknown: "section \<notin> set valid_sections \<Longrightarrow> section_map section = None"
  by (simp add: section_map_def valid_sections_def)

text \<open>A pattern that is too long raises on the first row that is tested against it.\<close>

lemma scan_limit_Nil: "scan_limit n P [] = Inr []"
  by (cases n) simp_all

lemma scan_limit_raises:
  "0 < n \<Longrightarrow> xs \<noteq> [] \<Longrightarrow> (\<And>x. P x = Inl e) \<Longrightarrow> scan_limit n P xs = Inl e"
  by (cases n; cases xs) simp_all

lemma select_in_section_rows:
  assumes "manual_fts d 64 query = Inr rows"
  shows "select_in_section d tag query
           = (if 1000000000 < utf8_length tag + 2 then Inl ''string or blob too big''
              else if 50000 < utf8_length tag + 2 \<and> rows \<noteq> []
              then Inl ''LIKE or GLOB pattern too complex''
              else Inr (map hit_of_fts
                          (take 15 (filter (\<lambda>f. like_matches (contains_pattern tag)
                                                   (f_section_type f)) rows))))"
proof (cases "50000 < utf8_length tag + 2")
  case True
  show ?thesis
  proof (cases "rows = []")
    case True
    then show ?thesis
      using assms
      by (simp add: select_in_section_def bind_text_def utf8_length_pattern scan_limit_Nil)
  next
    case False
    have "scan_limit 15 (\<lambda>f. like (contains_pattern tag) (f_section_type f)) rows
            = Inl ''LIKE or GLOB pattern too complex''"
      using \<open>50000 < utf8_length tag + 2\<close>
      by (intro scan_limit_raises False) (simp_all add: like_def utf8_length_pattern)
    then show ?thesis
      using assms True False
      by (simp add: select_in_section_def bind_text_def utf8_length_pattern)
  qed
next
  case False
  then have short: "utf8_length tag \<le> 49998"
    by simp
  have "scan_limit 15 (\<lambda>f. like (contains_pattern tag) (f_section_type f)) rows
          = Inr (take 15 (filter (\<lambda>f. like_matches (contains_pattern tag) (f_section_type f))
                                 rows))"
    by (rule scan_limit_total) (simp add: like_within [OF short])
  then show ?thesis
    using assms False
    by (simp add: select_in_section_def bind_text_within [OF short])
qed

text \<open>
  Claim C7, as the code has it. For a section name outside the five valid names,
  \<open>filter_by_section_db\<close> (API backend) returns the validation message that lists exactly
  the five names, whatever the query and the database; \<open>filter_by_section_query\<close> (MCP
  server) does not validate: it searches with the name itself as the pattern for the
  section tag, and a name too long for SQLite to bind (more than 1000000000 bytes with the
  two \<open>%\<close>) or to match against a row (more than 50000) ends in an error text.
\<close>

theorem unknown_section_name:
  assumes "section \<notin> set valid_sections"
  shows "filter_by_section_db env section query
           = ''Invalid section '' @ quoted section
             @ ''. Valid sections: characters, equipment, locations, story_sections, general_content''
         \<and> (\<forall>d rows. database_file env = Some d \<and> manual_fts d 64 query = Inr rows \<longrightarrow>
               filter_by_section_query env section query
                 = (if 1000000000 < utf8_length section + 2
                    then ''Error: string or blob too big''
                    else if 50000 < utf8_length section + 2 \<and> rows \<noteq> []
                    then ''Error: LIKE or GLOB pattern too complex''
                    else
                      let found = map hit_of_fts
                                    (take 15 (filter (\<lambda>f. like_matches (contains_pattern section)
                                                                (f_section_type f)) rows))
                      in if found = []
                         then ''No results found for '' @ quoted query @ '' in section ''
                              @ quoted section
                         else join nl ((''Found '' @ str_nat (length found) @ '' results in ''
                                         @ quoted section @ '':'' @ nl)
                                       # concat (map hit_lines found))))"
  using assms
  by (simp add: filter_by_section_db_def filter_by_section_query_def get_db_connection_def
        section_map_unknown select_in_section_rows valid_sections_def Let_def)

text \<open>
  The name \<open>equip\<close> is refused by the API backend and finds the equipment page on the MCP
  server.
\<close>

theorem unknown_section_name_witness:
  "''equip'' \<notin> set valid_sections
   \<and> filter_by_section_db example_env ''equip'' ''rifle''
       = ''Invalid section '' @ quoted ''equip''
         @ ''. Valid sections: characters, equipment, locations, story_sections, general_content''
   \<and> filter_by_section_query example_env ''equip'' ''rifle''
       = ''Found 1 results in '' @ quoted ''equip'' @ '':'' @ nl @ nl
         @ ''**Page 3** [equipment]'' @ nl @ ''  abc >>>rifle<<<'' @ nl"
proof -
  have 1: "''equip'' \<notin> set valid_sections"
    by (simp add: valid_sections_def)
  have 2: "manual_fts example_database 64 ''rifle''
       = Inr [\<lparr>f_page_number = 3, f_section_type = ''equipment'',
                f_snippet = ''abc >>>rifle<<<'', f_rank = - 1\<rparr>,
               \<lparr>f_page_number = 1, f_section_type = ''general'',
                f_snippet = ''...the >>>rifle<<< range...'', f_rank = - 2\<rparr>]"
    by (simp add: example_fts_of example_fts_def)
  have 3: "str_nat (Suc 0) = ''1''" "str_int 3 = ''3''"
    by code_simp+
  have 4: "utf8_length ''equip'' = 5"
    by (simp add: utf8_length_def)
  from 1 unknown_section_name [OF 1, of example_env "''rifle''"] example_db 2
  show ?thesis
    by (simp add: 4 like_matches_def c_string_def contains_pattern_def ascii_lower_def
          hit_of_fts_def hit_lines_def 3)
qed

text \<open>
  The claim as stated fails on the MCP server: for the section \<open>weapons\<close> it runs the
  search and reports no results.
\<close>

theorem section_not_validated_counterexample:
  "''weapons'' \<notin> set valid_sections
   \<and> filter_by_section_query example_env ''weapons'' ''rifle''
       = ''No results found for '' @ quoted ''rifle'' @ '' in section '' @ quoted ''weapons''"
proof -
  have 1: "manual_fts example_database 64 ''rifle''
       = Inr [\<lparr>f_page_number = 3, f_section_type = ''equipment'',
                f_snippet = ''abc >>>rifle<<<'', f_rank = - 1\<rparr>,
               \<lparr>f_page_number = 1, f_section_type = ''general'',
                f_snippet = ''...the >>>rifle<<< range...'', f_rank = - 2\<rparr>]"
    by (simp add: example_fts_of example_fts_def)
  have 2: "utf8_length ''weapons'' = 7"
    by (simp add: utf8_length_def)
  show ?thesis
    by (simp add: valid_sections_def filter_by_section_query_def get_db_connection_def example_db
          section_map_def select_in_section_rows [OF 1] 2 like_matches_def c_string_def
          contains_pattern_def ascii_lower_def)
qed

section \<open>Pages by number\<close>

lemma find_in_upto:
  assumes "\<And>k. g (f k) = k"
  shows "find (\<lambda>p. g p = n) (map f [a..b]) = (if a \<le> n \<and> n \<le> b then Some (f n) else None)"
proof (induction a b rule: upto.induct)
  case (1 i j)
  show ?case
  proof (cases "i \<le> j")
    case True
    then show ?thesis
      using 1 assms by (subst upto_rec1) auto
  next
    case False
    then show ?thesis by simp
  qed
qed

lemma manual_db: "database_file manual_env = Some manual_database"
  by (simp add: manual_env_def)

lemma fetch_manual_page:
  "fetch_page manual_database n
     = (if 1 \<le> n \<and> n \<le> 196
        then Some \<lparr>page_number = n, section_type = ''general'',
                   content = ''Text of page '' @ str_int n\<rparr>
        else None)"
  unfolding fetch_page_def manual_database_def
  by (simp add: find_in_upto)

lemma manual_page_numbers: "map page_number (manual_pages manual_database) = [1..196]"
  by (simp add: manual_database_def o_def)

lemma fetch_page_stored:
  assumes "distinct (map page_number (manual_pages d))" and "p \<in> set (manual_pages d)"
  shows "fetch_page d (page_number p) = Some p"
proof -
  have "\<And>ps. distinct (map page_number ps) \<Longrightarrow> p \<in> set ps
          \<Longrightarrow> find (\<lambda>q. page_number q = page_number p) ps = Some p"
  proof -
    fix ps show "distinct (map page_number ps) \<Longrightarrow> p \<in> set ps
          \<Longrightarrow> find (\<lambda>q. page_number q = page_number p) ps = Some p"
      by (induction ps) (auto simp: image_iff)
  qed
  then show ?thesis using assms by (simp add: fetch_page_def)
qed

lemma fetch_page_missing:
  "n \<notin> page_number ` set (manual_pages d) \<Longrightarrow> fetch_page d n = None"
  by (auto simp: fetch_page_def find_None_iff)

text \<open>
  Claim C6, as the code has it. With the database present and exactly the pages 1 to 196
  stored, each once: for every number from 1 to 196 both implementations return the
  header with that number and the section tag of the page, a blank line and the full
  content of the page. For every other number that fits a signed 64-bit integer both
  answer not-found; \<open>show_page_db\<close> (API backend) names the valid range 1-196,
  \<open>show_page_query\<close> (MCP server) does not. A number outside the 64-bit range cannot be
  bound to the statement: both answer with the text of the \<open>OverflowError\<close>.
\<close>

theorem show_page_lookup:
  assumes db: "database_file env = Some d"
    and unique: "distinct (map page_number (manual_pages d))"
    and range: "page_number ` set (manual_pages d) = {1..196}"
  shows "(\<forall>n. 1 \<le> n \<and> n \<le> 196 \<longrightarrow>
            (\<exists>p \<in> set (manual_pages d).
                page_number p = n
                \<and> show_page_db env n
                    = ''=== Page '' @ str_int n @ '' ['' @ section_type p @ ''] ===''
                      @ nl @ nl @ content p
                \<and> show_page_query env n = show_page_db env n))
         \<and> (\<forall>n. (n < 1 \<or> 196 < n) \<and> - (2 ^ 63) \<le> n \<and> n < 2 ^ 63 \<longrightarrow>
               show_page_db env n
                 = ''Page '' @ str_int n @ '' not found. Valid pages are 1-196.''
               \<and> show_page_query env n = ''Page '' @ str_int n @ '' not found'')
         \<and> (\<forall>n. n < - (2 ^ 63) \<or> 2 ^ 63 \<le> n \<longrightarrow>
               show_page_db env n
                 = ''Error: Python int too large to convert to SQLite INTEGER''
               \<and> show_page_query env n
                   = ''Error: Python int too large to convert to SQLite INTEGER'')"
proof (intro conjI allI impI)
  fix n :: int
  assume n: "1 \<le> n \<and> n \<le> 196"
  then have "n \<in> page_number ` set (manual_pages d)"
    using range by simp
  then obtain p where p: "p \<in> set (manual_pages d)" "page_number p = n"
    by auto
  have fits: "sqlite_integer n"
    using n by (simp add: sqlite_integer_def)
  have "fetch_page d n = Some p"
    using fetch_page_stored [OF unique p(1)] p(2) by simp
  then have "show_page_db env n
               = ''=== Page '' @ str_int n @ '' ['' @ section_type p @ ''] ===''
                 @ nl @ nl @ content p
             \<and> show_page_query env n = show_page_db env n"
    using db p(2) fits
    by (simp add: show_page_db_def show_page_query_def get_db_connection_def page_text_def)
  with p show "\<exists>p \<in> set (manual_pages d).
                page_number p = n
                \<and> show_page_db env n
                    = ''=== Page '' @ str_int n @ '' ['' @ section_type p @ ''] ===''
                      @ nl @ nl @ content p
                \<and> show_page_query env n = show_page_db env n"
    by blast
next
  fix n :: int
  assume n: "(n < 1 \<or> 196 < n) \<and> - (2 ^ 63) \<le> n \<and> n < 2 ^ 63"
  then have "n \<notin> page_number ` set (manual_pages d)"
    using range by auto
  then have none: "fetch_page d n = None"
    by (rule fetch_page_missing)
  have fits: "sqlite_integer n"
    using n by (simp add: sqlite_integer_def)
  show "show_page_db env n = ''Page '' @ str_int n @ '' not found. Valid pages are 1-196.''"
    using db none fits by (simp add: show_page_db_def)
  show "show_page_query env n = ''Page '' @ str_int n @ '' not found''"
    using db none fits by (simp add: show_page_query_def get_db_connection_def)
next
  fix n :: int
  assume "n < - (2 ^ 63) \<or> 2 ^ 63 \<le> n"
  then have over: "\<not> sqlite_integer n"
    by (auto simp: sqlite_integer_def)
  show "show_page_db env n = ''Error: Python int too large to convert to SQLite INTEGER''"
    using db over by (simp add: show_page_db_def int_too_large_def)
  show "show_page_query env n = ''Error: Python int too large to convert to SQLite INTEGER''"
    using db over by (simp add: show_page_query_def get_db_connection_def int_too_large_def)
qed

lemma manual_pages_unique: "distinct (map page_number (manual_pages manual_database))"
  by (simp add: manual_page_numbers)

lemma manual_pages_range: "page_number ` set (manual_pages manual_database) = {1..196}"
  using manual_page_numbers by (metis list.set_map set_upto)

lemma str_int_examples:
  "str_int 0 = ''0''" "str_int 196 = ''196''" "str_int 197 = ''197''"
  by code_simp+

text \<open>
  The last page of a manual of 196 pages, the number after it, and the first number that
  SQLite cannot hold.
\<close>

theorem show_page_lookup_witness:
  "database_file manual_env = Some manual_database
   \<and> distinct (map page_number (manual_pages manual_database))
   \<and> page_number ` set (manual_pages manual_database) = {1..196}
   \<and> show_page_db manual_env 196
       = ''=== Page 196 [general] ==='' @ nl @ nl @ ''Text of page 196''
   \<and> show_page_query manual_env 196 = show_page_db manual_env 196
   \<and> show_page_db manual_env 197 = ''Page 197 not found. Valid pages are 1-196.''
   \<and> show_page_query manual_env 197 = ''Page 197 not found''
   \<and> show_page_db manual_env (2 ^ 63)
       = ''Error: Python int too large to convert to SQLite INTEGER''
   \<and> show_page_query manual_env (2 ^ 63)
       = ''Error: Python int too large to convert to SQLite INTEGER''"
proof -
  note inst = show_page_lookup [OF manual_db manual_pages_unique manual_pages_range]
  have found: "show_page_query manual_env 196 = show_page_db manual_env 196"
    using inst [THEN conjunct1, rule_format, of 196] by auto
  have stored: "show_page_db manual_env 196
       = ''=== Page 196 [general] ==='' @ nl @ nl @ ''Text of page 196''"
    by (simp add: show_page_db_def manual_db sqlite_integer_def fetch_manual_page page_text_def
          str_int_examples)
  have missing: "show_page_db manual_env 197 = ''Page 197 not found. Valid pages are 1-196.''"
      "show_page_query manual_env 197 = ''Page 197 not found''"
    using inst [THEN conjunct2, THEN conjunct1, rule_format, of 197]
    by (simp_all add: str_int_examples)
  have over: "show_page_db manual_env (2 ^ 63)
       = ''Error: Python int too large to convert to SQLite INTEGER''"
      "show_page_query manual_env (2 ^ 63)
       = ''Error: Python int too large to convert to SQLite INTEGER''"
    using inst [THEN conjunct2, THEN conjunct2, rule_format, of "2 ^ 63"]
    by simp_all
  from manual_db manual_pages_unique manual_pages_range found stored missing over
  show ?thesis by simp
qed

text \<open>
  The claim as stated fails on the MCP server: its answer for page 0 does not name the
  range.
\<close>

theorem show_page_range_counterexample:
  "show_page_query manual_env 0 = ''Page 0 not found''
   \<and> \<not> sublist ''1-196'' (show_page_query manual_env 0)"
proof -
  have "show_page_query manual_env 0 = ''Page 0 not found''"
    by (simp add: show_page_query_def get_db_connection_def manual_db sqlite_integer_def
          fetch_manual_page str_int_examples)
  then show ?thesis
    by (simp add: sublist_Cons_right)
qed

section \<open>Entity lookup\<close>

lemma select_characters_within:
  assumes "utf8_length query \<le> 49998"
  shows "select_characters d query
      = Inr (take 10 (filter (\<lambda>c. like_matches (contains_pattern query) (full_name c)
                   \<or> (case search_text c of None \<Rightarrow> False
                       | Some t \<Rightarrow> like_matches (contains_pattern query) t))
                 (characters d)))"
  unfolding select_characters_def bind_text_within [OF assms]
  by (rule scan_limit_total)
     (simp add: like_within [OF assms] like_col_within [OF assms] or_else_def)

lemma select_buildings_within:
  assumes "utf8_length query \<le> 49998"
  shows "select_buildings d query
      = Inr (take 10 (filter (\<lambda>b. like_matches (contains_pattern query) (building_type b)
                   \<or> (case b_description b of None \<Rightarrow> False
                       | Some t \<Rightarrow> like_matches (contains_pattern query) t))
                 (buildings d)))"
  unfolding select_buildings_def bind_text_within [OF assms]
  by (rule scan_limit_total)
     (simp add: like_within [OF assms] like_col_within [OF assms] or_else_def)

lemma select_vehicles_within:
  assumes "utf8_length query \<le> 49998"
  shows "select_vehicles d query
      = Inr (take 10 (filter (\<lambda>v. like_matches (contains_pattern query) (vehicle_type v)
                   \<or> (case v_description v of None \<Rightarrow> False
                       | Some t \<Rightarrow> like_matches (contains_pattern query) t))
                 (enemy_vehicles d)))"
  unfolding select_vehicles_def bind_text_within [OF assms]
  by (rule scan_limit_total)
     (simp add: like_within [OF assms] like_col_within [OF assms] or_else_def)

text \<open>
  Claim C9, as the code has it. For a query of at most 49998 bytes (the limit within
  which SQLite evaluates the pattern), \<open>quick_search_query\<close> (MCP server) matches
  characters (name or search text), buildings (type or description) and enemy vehicles
  (type or description), not skills; it returns one labelled block per kind that has a
  match, each kind capped at 10 rows, and the no-entities sentence when none of the three
  has a match. \<open>quick_search_db\<close> (API backend) does the same for characters only. A query
  without \<open>%\<close>, \<open>_\<close> and NUL matches a text when it occurs in it as a substring up to ASCII
  case; any other query matches as the LIKE pattern \<open>%query%\<close>. SQLite reads a text up to
  its first NUL character.
\<close>

theorem quick_search_kinds:
  assumes db: "database_file env = Some d"
    and short: "utf8_length query \<le> 49998"
  shows
    "(let found = (\<lambda>s. if plain query then ci_substring query (c_string s)
                         else like_matches (contains_pattern query) s);
          hit = (\<lambda>name txt. found name \<or> (case txt of None \<Rightarrow> False | Some t \<Rightarrow> found t));
          cs = take 10 (filter (\<lambda>c. hit (full_name c) (search_text c)) (characters d));
          bs = take 10 (filter (\<lambda>b. hit (building_type b) (b_description b)) (buildings d));
          vs = take 10 (filter (\<lambda>v. hit (vehicle_type v) (v_description v)) (enemy_vehicles d))
      in quick_search_query env query
           = (if cs = [] \<and> bs = [] \<and> vs = []
              then ''No entities found matching '' @ quoted query
              else join nl
                     ((if cs = [] then []
                       else ''=== CHARACTERS ==='' # concat (map (character_lines 300) cs))
                      @ (if bs = [] then []
                         else (nl @ ''=== BUILDINGS ==='') # concat (map building_lines bs))
                      @ (if vs = [] then []
                         else (nl @ ''=== ENEMY VEHICLES ==='') # concat (map vehicle_lines vs))))
         \<and> quick_search_db env query
             = (if cs = [] then ''No entities found matching '' @ quoted query
                else join nl (''=== CHARACTERS ==='' # concat (map (character_lines 500) cs)))
         \<and> length cs \<le> 10 \<and> length bs \<le> 10 \<and> length vs \<le> 10)"
proof -
  have conn: "get_db_connection env = Inr d"
    using db by (rule get_db_connection_Some)
  show ?thesis
    unfolding Let_def found_plain quick_search_query_def quick_search_db_def conn db
      select_characters_within [OF short] select_buildings_within [OF short]
      select_vehicles_within [OF short]
    by simp
qed

text \<open>
  The query \<open>snow\<close> finds a building by its description and a vehicle by its name on
  the MCP server, and nothing on the API backend.
\<close>

theorem quick_search_kinds_witness:
  "database_file example_env = Some example_database
   \<and> utf8_length ''snow'' \<le> 49998
   \<and> plain ''snow''
   \<and> quick_search_query example_env ''snow''
       = join nl [nl @ ''=== BUILDINGS ==='', nl @ ''**Garage**'', ''  Stores a snow-buggy'',
                  nl @ ''=== ENEMY VEHICLES ==='', nl @ ''**Snow-buggy**'', ''  Role: Patrol'']
   \<and> quick_search_db example_env ''snow'' = ''No entities found matching '' @ quoted ''snow''"
proof -
  have short: "utf8_length ''snow'' \<le> 49998"
    by (simp add: short_word)
  from quick_search_kinds [OF example_db short] short show ?thesis
    by (simp add: example_db example_plain example_characters example_entities named_def
          ci_substring_def c_string_def ascii_lower_def char_of_lower sublist_Cons_right
          building_lines_def vehicle_lines_def truthy_def)
qed

text \<open>
  The claim as stated fails: the skill named Skiing matches the query, and
  \<open>quick_search_query\<close> answers that no entity was found.
\<close>

theorem skills_not_searched_counterexample:
  "skills example_database = [\<lparr>skill_name = ''Skiing''\<rparr>]
   \<and> ci_substring ''Skiing'' ''Skiing''
   \<and> quick_search_query example_env ''Skiing'' = ''No entities found matching '' @ quoted ''Skiing''"
proof -
  have short: "utf8_length ''Skiing'' \<le> 49998"
    by (simp add: short_word)
  show ?thesis
    by (simp add: quick_search_query_def get_db_connection_def example_db
          select_characters_within [OF short] select_buildings_within [OF short]
          select_vehicles_within [OF short] example_characters example_entities named_def
          like_matches_def c_string_def contains_pattern_def ascii_lower_def char_of_lower
          ci_substring_def)
qed

section \<open>Tool calls with an argument missing\<close>

text \<open>
  Claim C8, as the code has it. Neither dispatcher validates arguments. In the API
  backend, \<open>execute_tool\<close> with a required argument absent raises \<open>KeyError\<close> on the first
  missing key before the tool function runs. In the MCP server, \<open>call_tool\<close> replaces an
  absent argument by a default (the empty text, 0 for \<open>page_number\<close>) and dispatches the
  tool with it.
\<close>

theorem missing_argument:
  "(text_args a ''query'' = None \<longrightarrow>
      execute_tool env ''search_manual'' a = Inl (KeyError ''query'')
      \<and> execute_tool env ''quick_search'' a = Inl (KeyError ''query'')
      \<and> call_tool env ''search_manual'' a = search_manual_query env []
      \<and> call_tool env ''quick_search'' a = quick_search_query env []
      \<and> call_tool env ''filter_by_section'' a
          = filter_by_section_query env (get_text a ''section'') [])
   \<and> (int_args a ''page_number'' = None \<longrightarrow>
        execute_tool env ''show_page'' a = Inl (KeyError ''page_number'')
        \<and> call_tool env ''show_page'' a = show_page_query env 0)
   \<and> (text_args a ''section'' = None \<longrightarrow>
        execute_tool env ''filter_by_section'' a = Inl (KeyError ''section'')
        \<and> call_tool env ''filter_by_section'' a
            = filter_by_section_query env [] (get_text a ''query''))
   \<and> (text_args a ''section'' \<noteq> None \<and> text_args a ''query'' = None \<longrightarrow>
        execute_tool env ''filter_by_section'' a = Inl (KeyError ''query''))
   \<and> (text_args a ''recruiter'' = None \<longrightarrow>
        call_tool env ''can_recruit'' a = can_recruit_query env [] (get_text a ''target''))
   \<and> (text_args a ''target'' = None \<longrightarrow>
        call_tool env ''can_recruit'' a = can_recruit_query env (get_text a ''recruiter'') []
        \<and> call_tool env ''who_can_recruit'' a = who_can_recruit_query env [])
   \<and> (text_args a ''character'' = None \<longrightarrow>
        call_tool env ''get_enemies'' a = get_enemies_query env []
        \<and> call_tool env ''get_friends'' a = get_friends_query env [])"
  by (auto simp: execute_tool_def call_tool_def index_text_def index_int_def get_text_def
        get_int_def)

lemma example_page_0: "fetch_page example_database 0 = None"
  by (simp add: fetch_page_def example_pages_of example_pages_def)

lemma str_int_0: "str_int 0 = ''0''"
  by code_simp

text \<open>
  A call without arguments, on both dispatchers.
\<close>

theorem missing_argument_witness:
  "int_args no_arguments ''page_number'' = None
   \<and> text_args no_arguments ''query'' = None
   \<and> execute_tool example_env ''show_page'' no_arguments = Inl (KeyError ''page_number'')
   \<and> execute_tool example_env ''search_manual'' no_arguments = Inl (KeyError ''query'')
   \<and> call_tool example_env ''show_page'' no_arguments = show_page_query example_env 0
   \<and> call_tool example_env ''search_manual'' no_arguments
       = search_manual_query example_env []"
  using missing_argument [of no_arguments example_env]
  by (simp add: no_arguments_def)

text \<open>
  The claim as stated fails: \<open>show_page\<close> without \<open>page_number\<close> on the MCP server looks
  for page 0 and says nothing about the missing field.
\<close>

theorem default_argument_counterexample:
  "int_args no_arguments ''page_number'' = None
   \<and> call_tool example_env ''show_page'' no_arguments = ''Page 0 not found''"
  by (simp add: no_arguments_def call_tool_def get_int_def show_page_query_def
        get_db_connection_def example_db sqlite_integer_def example_page_0 str_int_0)

section \<open>Jobs are read once\<close>

text \<open>
  Claim C3. \<open>search_status\<close> on an unknown id answers not-found and leaves the table as
  it is; on a job that is neither complete nor in error it answers the current status
  only; on a complete job it answers the stored result, on a job in error the stored
  message, and in both cases it deletes the record, so that the next call for the same id
  answers not-found.
\<close>

theorem search_status_one_shot:
  "(search_jobs job_id = None \<longrightarrow>
      search_status search_jobs job_id = (JobNotFound, search_jobs))
   \<and> (\<forall>j. search_jobs job_id = Some j \<and> status j \<noteq> ''complete'' \<and> status j \<noteq> ''error'' \<longrightarrow>
          search_status search_jobs job_id = (JobStatus (status j), search_jobs))
   \<and> (\<forall>j r. search_jobs job_id = Some j \<and> status j = ''complete'' \<and> result j = Some r \<longrightarrow>
          search_status search_jobs job_id = (JobComplete r, search_jobs(job_id := None))
          \<and> search_status (snd (search_status search_jobs job_id)) job_id
              = (JobNotFound, search_jobs(job_id := None)))
   \<and> (\<forall>j. search_jobs job_id = Some j \<and> status j = ''error'' \<longrightarrow>
          search_status search_jobs job_id
            = (JobError (case error j of None \<Rightarrow> ''Unknown error'' | Some e \<Rightarrow> e),
               search_jobs(job_id := None))
          \<and> search_status (snd (search_status search_jobs job_id)) job_id
              = (JobNotFound, search_jobs(job_id := None)))"
  by (simp add: search_status_def)

text \<open>
  The hypothesis on a complete job holds for every table the code produces: the empty
  table satisfies it, and submission, the worker and the status read preserve it.
\<close>

lemma complete_has_result_empty: "complete_has_result Map.empty"
  by (simp add: complete_has_result_def)

lemma complete_has_result_start:
  "complete_has_result js \<Longrightarrow> complete_has_result (snd (search_start js raw job_id now))"
  by (auto simp: complete_has_result_def search_start_def Let_def)

lemma complete_has_result_worker:
  "complete_has_result js \<Longrightarrow>
     complete_has_result (snd (run_search_job client env js job_id query))"
  by (auto simp: complete_has_result_def run_search_job_def mark_running_def
      split: option.splits sum.splits prod.splits if_splits)

lemma complete_has_result_status:
  "complete_has_result js \<Longrightarrow> complete_has_result (snd (search_status js job_id))"
  by (auto simp: complete_has_result_def search_status_def split: option.splits if_splits)

lemma pending_job:
  "pending_jobs ''1a2b3c4d''
     = Some \<lparr>status = ''pending'', created = Some ''2025-01-01T12:00:00'', result = None,
             error = None\<rparr>"
  by (simp add: pending_jobs_def search_start_def strip_def is_space_def)

lemma no_refs: "page_refs ''Stark is a captain.'' = []"
  by (simp add: page_refs_def match_page_pattern_def)

lemma tool_rounds_stop:
  "\<not> (stop_reason resp = ''tool_use'' \<and> rounds < n) \<Longrightarrow>
     tool_rounds create env mdl limit n rounds msgs resp sent = (sent, Inr (msgs, resp))"
  by (subst tool_rounds.simps) auto

lemma run_rounds_direct:
  "run_rounds direct_client env mdl limit n q
     = ([\<lparr>model = mdl, max_tokens = limit, with_tools = True, messages = [UserText q]\<rparr>],
        Inr ([UserText q],
             \<lparr>stop_reason = ''end_turn'', resp_content = [TextBlock ''Stark is a captain.'']\<rparr>))"
  by (simp add: run_rounds_def direct_client_def tool_rounds_stop)

lemma running_job: "mark_running pending_jobs ''1a2b3c4d'' = Inr running_jobs"
  by (simp add: mark_running_def pending_job running_jobs_def)

lemma finished_job:
  "finished_jobs ''1a2b3c4d''
     = Some \<lparr>status = ''complete'', created = None,
             result = Some \<lparr>success = True, sr_query = ''Who is Stark?'', results = [],
                            raw_response = Some ''Stark is a captain.''\<rparr>,
             error = None\<rparr>"
  by (simp add: finished_jobs_def run_search_job_def running_job run_rounds_direct
        force_final_def final_text_def no_refs)

text \<open>
  One job from submission to consumption: pending after \<open>search_start\<close>, running while
  its worker is at work, complete after it, read once, then gone.
\<close>

theorem search_status_one_shot_witness:
  "search_status Map.empty ''1a2b3c4d'' = (JobNotFound, Map.empty)
   \<and> search_status pending_jobs ''1a2b3c4d'' = (JobStatus ''pending'', pending_jobs)
   \<and> mark_running pending_jobs ''1a2b3c4d'' = Inr running_jobs
   \<and> search_status running_jobs ''1a2b3c4d'' = (JobStatus ''running'', running_jobs)
   \<and> search_status finished_jobs ''1a2b3c4d''
       = (JobComplete \<lparr>success = True, sr_query = ''Who is Stark?'', results = [],
                        raw_response = Some ''Stark is a captain.''\<rparr>,
          finished_jobs(''1a2b3c4d'' := None))
   \<and> search_status (snd (search_status finished_jobs ''1a2b3c4d'')) ''1a2b3c4d''
       = (JobNotFound, finished_jobs(''1a2b3c4d'' := None))"
  using search_status_one_shot [of Map.empty "''1a2b3c4d''"]
    search_status_one_shot [of pending_jobs "''1a2b3c4d''"]
    search_status_one_shot [of running_jobs "''1a2b3c4d''"]
    search_status_one_shot [of finished_jobs "''1a2b3c4d''"]
  by (simp add: pending_job running_job running_jobs_def finished_job search_status_def)

section \<open>The exchange with the reasoning service is bounded\<close>

lemma tool_rounds_step:
  assumes "stop_reason resp = ''tool_use''" and "rounds < n"
    and "tool_results env (resp_content resp) = Inr rs"
    and "create \<lparr>model = mdl, max_tokens = limit, with_tools = True,
                  messages = msgs @ [AssistantContent (resp_content resp), UserParts rs]\<rparr>
           = Inr resp'"
  shows "tool_rounds create env mdl limit n rounds msgs resp sent
           = tool_rounds create env mdl limit n (Suc rounds)
               (msgs @ [AssistantContent (resp_content resp), UserParts rs]) resp'
               (sent @ [\<lparr>model = mdl, max_tokens = limit, with_tools = True,
                         messages = msgs @ [AssistantContent (resp_content resp),
                                            UserParts rs]\<rparr>])"
  using assms by (subst tool_rounds.simps) simp

text \<open>Whatever the service does, a loop sends at most one request per round left.\<close>

lemma tool_rounds_bound:
  "\<exists>new. fst (tool_rounds create env mdl limit n rounds msgs resp sent) = sent @ new
         \<and> length new \<le> n - rounds \<and> list_all with_tools new"
proof (induction create env mdl limit n rounds msgs resp sent rule: tool_rounds.induct)
  case (1 create env mdl limit n rounds msgs resp sent)
  show ?case
  proof (cases "stop_reason resp = ''tool_use'' \<and> rounds < n")
    case False
    then show ?thesis by (simp add: tool_rounds_stop)
  next
    case go: True
    show ?thesis
    proof (cases "tool_results env (resp_content resp)")
      case (Inl e)
      with go show ?thesis by (subst tool_rounds.simps) simp
    next
      case (Inr rs)
      let ?msgs = "msgs @ [AssistantContent (resp_content resp), UserParts rs]"
      let ?req = "\<lparr>model = mdl, max_tokens = limit, with_tools = True, messages = ?msgs\<rparr>"
      show ?thesis
      proof (cases "create ?req")
        case failed: (Inl e)
        have "tool_rounds create env mdl limit n rounds msgs resp sent
                = (sent @ [?req], Inl (ServiceError e))"
          using go Inr failed by (subst tool_rounds.simps) simp
        moreover have "length [?req] \<le> n - rounds"
          using go by auto
        ultimately show ?thesis by auto
      next
        case answered: (Inr resp')
        from "1.IH" [OF go Inr answered]
        obtain new where new:
          "fst (tool_rounds create env mdl limit n (rounds + 1) ?msgs resp' (sent @ [?req]))
             = (sent @ [?req]) @ new"
          "length new \<le> n - (rounds + 1)" "list_all with_tools new"
          by blast
        have "tool_rounds create env mdl limit n rounds msgs resp sent
                = tool_rounds create env mdl limit n (rounds + 1) ?msgs resp' (sent @ [?req])"
          using go Inr answered tool_rounds_step [of resp rounds n env rs create mdl limit msgs resp']
          by simp
        then have "fst (tool_rounds create env mdl limit n rounds msgs resp sent)
                     = sent @ (?req # new)"
          using new(1) by simp
        moreover have "length (?req # new) \<le> n - rounds"
          using new(2) go by auto
        moreover have "list_all with_tools (?req # new)"
          using new(3) by simp
        ultimately show ?thesis by blast
      qed
    qed
  qed
qed

text \<open>
  A service that requests tools in every answer to a request with tools (each call
  carrying its arguments) keeps the loop going for all its rounds.
\<close>

lemma tool_rounds_hungry:
  assumes hungry: "\<forall>req. with_tools req \<longrightarrow>
      (\<exists>resp rs. create req = Inr resp \<and> stop_reason resp = ''tool_use''
                 \<and> tool_results env (resp_content resp) = Inr rs)"
  shows "stop_reason resp = ''tool_use'' \<Longrightarrow> tool_results env (resp_content resp) = Inr rs
     \<Longrightarrow> sent \<noteq> [] \<Longrightarrow> create (last sent) = Inr resp \<Longrightarrow> n - rounds = k \<Longrightarrow>
     \<exists>new msgs' resp' rs'.
        tool_rounds create env mdl limit n rounds msgs resp sent
          = (sent @ new, Inr (msgs', resp'))
        \<and> length new = k \<and> list_all with_tools new
        \<and> stop_reason resp' = ''tool_use''
        \<and> tool_results env (resp_content resp') = Inr rs'
        \<and> create (last (sent @ new)) = Inr resp'"
proof (induction k arbitrary: rounds msgs resp sent rs)
  case 0
  then have "tool_rounds create env mdl limit n rounds msgs resp sent = (sent, Inr (msgs, resp))"
    by (simp add: tool_rounds_stop)
  with 0 show ?case by auto
next
  case (Suc k)
  let ?msgs = "msgs @ [AssistantContent (resp_content resp), UserParts rs]"
  let ?req = "\<lparr>model = mdl, max_tokens = limit, with_tools = True, messages = ?msgs\<rparr>"
  from Suc.prems have lt: "rounds < n" by simp
  obtain resp' rs' where next_resp: "create ?req = Inr resp'"
      "stop_reason resp' = ''tool_use''" "tool_results env (resp_content resp') = Inr rs'"
    using hungry [rule_format, of ?req] by auto
  have step: "tool_rounds create env mdl limit n rounds msgs resp sent
      = tool_rounds create env mdl limit n (Suc rounds) ?msgs resp' (sent @ [?req])"
    using Suc.prems(1) lt Suc.prems(2) next_resp(1) by (rule tool_rounds_step)
  have "n - Suc rounds = k" using Suc.prems by simp
  from Suc.IH [OF next_resp(2,3) _ _ this, where sent = "sent @ [?req]" and msgs = ?msgs]
    next_resp(1)
  obtain new msgs' resp'' rs'' where new:
    "tool_rounds create env mdl limit n (Suc rounds) ?msgs resp' (sent @ [?req])
       = ((sent @ [?req]) @ new, Inr (msgs', resp''))"
    "length new = k" "list_all with_tools new" "stop_reason resp'' = ''tool_use''"
    "tool_results env (resp_content resp'') = Inr rs''"
    "create (last ((sent @ [?req]) @ new)) = Inr resp''"
    by auto
  have "tool_rounds create env mdl limit n rounds msgs resp sent
          = (sent @ (?req # new), Inr (msgs', resp''))"
    using step new(1) by simp
  moreover have "length (?req # new) = Suc k" using new(2) by simp
  moreover have "list_all with_tools (?req # new)" using new(3) by simp
  moreover have "create (last (sent @ (?req # new))) = Inr resp''" using new(6) by simp
  ultimately show ?case using new(4,5) by blast
qed

lemma run_rounds_hungry:
  assumes hungry: "\<forall>req. with_tools req \<longrightarrow>
      (\<exists>resp rs. create req = Inr resp \<and> stop_reason resp = ''tool_use''
                 \<and> tool_results env (resp_content resp) = Inr rs)"
  shows "\<exists>sent msgs resp rs.
           run_rounds create env mdl limit n query = (sent, Inr (msgs, resp))
           \<and> length sent = n + 1 \<and> list_all with_tools sent
           \<and> stop_reason resp = ''tool_use''
           \<and> tool_results env (resp_content resp) = Inr rs
           \<and> create (last sent) = Inr resp"
proof -
  let ?req = "\<lparr>model = mdl, max_tokens = limit, with_tools = True,
                messages = [UserText query]\<rparr>"
  obtain resp rs where first: "create ?req = Inr resp" "stop_reason resp = ''tool_use''"
      "tool_results env (resp_content resp) = Inr rs"
    using hungry [rule_format, of ?req] by auto
  have "n - 0 = n" by simp
  from tool_rounds_hungry [OF hungry first(2,3) _ _ this, where sent = "[?req]"
          and mdl = mdl and limit = limit and msgs = "[UserText query]"]
    first(1)
  obtain new msgs' resp' rs' where new:
    "tool_rounds create env mdl limit n 0 [UserText query] resp [?req]
       = ([?req] @ new, Inr (msgs', resp'))"
    "length new = n" "list_all with_tools new" "stop_reason resp' = ''tool_use''"
    "tool_results env (resp_content resp') = Inr rs'"
    "create (last ([?req] @ new)) = Inr resp'"
    by auto
  have "run_rounds create env mdl limit n query = (?req # new, Inr (msgs', resp'))"
    using first(1) new(1) by (simp add: run_rounds_def)
  moreover have "length (?req # new) = n + 1" using new(2) by simp
  moreover have "list_all with_tools (?req # new)" using new(3) by simp
  moreover have "create (last (?req # new)) = Inr resp'" using new(6) by simp
  ultimately show ?thesis using new(4,5) by blast
qed

lemma run_rounds_bound:
  "length (fst (run_rounds create env mdl limit n query)) \<le> n + 1
   \<and> list_all with_tools (fst (run_rounds create env mdl limit n query))"
proof (cases "create \<lparr>model = mdl, max_tokens = limit, with_tools = True,
                       messages = [UserText query]\<rparr>")
  case (Inl e)
  then show ?thesis by (simp add: run_rounds_def)
next
  case (Inr resp)
  let ?req = "\<lparr>model = mdl, max_tokens = limit, with_tools = True,
                messages = [UserText query]\<rparr>"
  obtain new where
    "fst (tool_rounds create env mdl limit n 0 [UserText query] resp [?req]) = [?req] @ new"
    "length new \<le> n - 0" "list_all with_tools new"
    using tool_rounds_bound by blast
  then show ?thesis using Inr by (simp add: run_rounds_def)
qed

lemma force_final_bound:
  "length (fst (force_final create env st)) \<le> length (fst st) + 1"
  by (cases st) (auto simp: force_final_def split: sum.splits)

lemma search_fast_sent:
  "fst (search_fast client env raw)
     = (case client of
          None \<Rightarrow> []
        | Some create \<Rightarrow>
            if strip raw = [] then []
            else fst (run_rounds create env ''claude-3-5-haiku-latest'' 1024 2 (strip raw)))"
  by (simp add: search_fast_def Let_def split: option.splits prod.splits sum.splits)

lemma search_sent:
  "fst (search client env raw)
     = (case client of
          None \<Rightarrow> []
        | Some create \<Rightarrow>
            if strip raw = [] then []
            else fst (run_rounds create env ''claude-sonnet-4-5-20250929'' 2048 5 (strip raw)))"
  by (simp add: search_def Let_def split: option.splits prod.splits sum.splits)

lemma run_search_job_sent:
  "fst (run_search_job client env search_jobs job_id query)
     = (case client of
          None \<Rightarrow> []
        | Some create \<Rightarrow>
            if search_jobs job_id = None then []
            else fst (force_final create env
                        (run_rounds create env ''claude-sonnet-4-5-20250929'' 2048 6 query)))"
  by (simp add: run_search_job_def mark_running_def
        split: option.splits prod.splits sum.splits)

text \<open>
  Whatever the service answers, and whether or not a tool call fails, the three callers
  send at most 3, 6 and 8 requests.
\<close>

theorem exchange_bounds:
  "length (fst (search_fast client env raw)) \<le> 2 + 1
   \<and> length (fst (search client env raw)) \<le> 5 + 1
   \<and> length (fst (run_search_job client env search_jobs job_id query)) \<le> 6 + 2"
proof (intro conjI)
  show "length (fst (search_fast client env raw)) \<le> 2 + 1"
    using run_rounds_bound [of _ env "''claude-3-5-haiku-latest''" 1024 2 "strip raw"]
    by (simp add: search_fast_sent split: option.splits)
  show "length (fst (search client env raw)) \<le> 5 + 1"
    using run_rounds_bound [of _ env "''claude-sonnet-4-5-20250929''" 2048 5 "strip raw"]
    by (simp add: search_sent split: option.splits)
  show "length (fst (run_search_job client env search_jobs job_id query)) \<le> 6 + 2"
  proof (cases client)
    case None
    then show ?thesis by (simp add: run_search_job_sent)
  next
    case (Some create)
    let ?st = "run_rounds create env ''claude-sonnet-4-5-20250929'' 2048 6 query"
    have "length (fst (force_final create env ?st)) \<le> length (fst ?st) + 1"
      by (rule force_final_bound)
    moreover have "length (fst ?st) \<le> 6 + 1"
      using run_rounds_bound by blast
    ultimately have "length (fst (force_final create env ?st)) \<le> 6 + 2"
      by simp
    then show ?thesis
      using Some by (simp add: run_search_job_sent)
  qed
qed

lemma search_fast_hungry:
  assumes hungry: "\<forall>req. with_tools req \<longrightarrow>
      (\<exists>resp rs. create req = Inr resp \<and> stop_reason resp = ''tool_use''
                 \<and> tool_results env (resp_content resp) = Inr rs)"
    and query: "strip raw \<noteq> []"
  shows "\<exists>sent resp.
           search_fast (Some create) env raw
             = (sent, Ok \<lparr>success = True, sr_query = strip raw, results = [],
                          raw_response = Some (if final_text (resp_content resp) = []
                                               then ''No results found.''
                                               else final_text (resp_content resp))\<rparr>)
           \<and> length sent = 2 + 1 \<and> list_all with_tools sent
           \<and> create (last sent) = Inr resp"
proof -
  obtain sent msgs resp rs where
    "run_rounds create env ''claude-3-5-haiku-latest'' 1024 2 (strip raw) = (sent, Inr (msgs, resp))"
    "length sent = 2 + 1" "list_all with_tools sent" "create (last sent) = Inr resp"
    using run_rounds_hungry [OF hungry] by blast
  then show ?thesis
    using query by (auto simp: search_fast_def Let_def)
qed

lemma search_hungry:
  assumes hungry: "\<forall>req. with_tools req \<longrightarrow>
      (\<exists>resp rs. create req = Inr resp \<and> stop_reason resp = ''tool_use''
                 \<and> tool_results env (resp_content resp) = Inr rs)"
    and query: "strip raw \<noteq> []"
  shows "\<exists>sent resp.
           search (Some create) env raw
             = (sent, Ok \<lparr>success = True, sr_query = strip raw,
                          results = page_refs (final_text (resp_content resp)),
                          raw_response = (if page_refs (final_text (resp_content resp)) = []
                                          then Some (final_text (resp_content resp))
                                          else None)\<rparr>)
           \<and> length sent = 5 + 1 \<and> list_all with_tools sent
           \<and> create (last sent) = Inr resp"
proof -
  obtain sent msgs resp rs where
    "run_rounds create env ''claude-sonnet-4-5-20250929'' 2048 5 (strip raw)
       = (sent, Inr (msgs, resp))"
    "length sent = 5 + 1" "list_all with_tools sent" "create (last sent) = Inr resp"
    using run_rounds_hungry [OF hungry] by blast
  then show ?thesis
    using query by (auto simp: search_def Let_def)
qed

lemma run_search_job_hungry:
  assumes hungry: "\<forall>req. with_tools req \<longrightarrow>
      (\<exists>resp rs. create req = Inr resp \<and> stop_reason resp = ''tool_use''
                 \<and> tool_results env (resp_content resp) = Inr rs)"
    and answers: "\<forall>req. \<not> with_tools req \<longrightarrow> (\<exists>resp. create req = Inr resp)"
    and job: "search_jobs job_id \<noteq> None"
  shows "\<exists>sent resp.
           run_search_job (Some create) env search_jobs job_id query
             = (sent, search_jobs(job_id \<mapsto>
                  \<lparr>status = ''complete'', created = None,
                   result = Some \<lparr>success = True, sr_query = query,
                                  results = page_refs (final_text (resp_content resp)),
                                  raw_response =
                                    (if page_refs (final_text (resp_content resp)) = []
                                     then Some (final_text (resp_content resp))
                                     else None)\<rparr>,
                   error = None\<rparr>))
           \<and> length sent = 6 + 2 \<and> list_all with_tools (butlast sent)
           \<and> \<not> with_tools (last sent) \<and> create (last sent) = Inr resp"
proof -
  obtain sent msgs resp rs where conv:
    "run_rounds create env ''claude-sonnet-4-5-20250929'' 2048 6 query = (sent, Inr (msgs, resp))"
    "length sent = 6 + 1" "list_all with_tools sent" "stop_reason resp = ''tool_use''"
    "tool_results env (resp_content resp) = Inr rs"
    using run_rounds_hungry [OF hungry] by blast
  let ?msgs = "msgs @ [AssistantContent (resp_content resp),
                 UserParts (rs @ [TextPart
                   ''Now provide your final answer based on all search results.''])]"
  let ?req = "\<lparr>model = ''claude-sonnet-4-5-20250929'', max_tokens = 2048, with_tools = False,
               messages = ?msgs\<rparr>"
  obtain resp' where final: "create ?req = Inr resp'"
    using answers [rule_format, of ?req] by auto
  have forced: "force_final create env (sent, Inr (msgs, resp))
                  = (sent @ [?req], Inr (?msgs, resp'))"
    using conv(4,5) final by (simp add: force_final_def)
  have "run_search_job (Some create) env search_jobs job_id query
          = (sent @ [?req], search_jobs(job_id \<mapsto>
               \<lparr>status = ''complete'', created = None,
                result = Some \<lparr>success = True, sr_query = query,
                               results = page_refs (final_text (resp_content resp')),
                               raw_response =
                                 (if page_refs (final_text (resp_content resp')) = []
                                  then Some (final_text (resp_content resp'))
                                  else None)\<rparr>,
                error = None\<rparr>))"
    using job by (auto simp: run_search_job_def mark_running_def conv(1) forced)
  moreover have "length (sent @ [?req]) = 6 + 2" using conv(2) by simp
  moreover have "list_all with_tools (butlast (sent @ [?req]))" using conv(3) by simp
  moreover have "\<not> with_tools (last (sent @ [?req]))" by simp
  moreover have "create (last (sent @ [?req])) = Inr resp'" using final by simp
  ultimately show ?thesis by blast
qed

text \<open>
  Claim C2, as the code has it. Let the service answer every request that carries the
  tools with a response that requests tools (each call with its arguments), and let it
  answer a request without tools at all. Then \<open>search_fast\<close> (2 rounds) sends exactly 3
  requests and \<open>search\<close> (5 rounds) exactly 6, all of them with the tools: they have no
  closing request without tools. \<open>run_search_job\<close> (6 rounds) sends exactly 8: seven with
  the tools and a last one without. Each returns the text of the response to the last
  request as its answer; the job ends complete.
\<close>

theorem orchestration_exchanges:
  assumes hungry: "\<forall>req. with_tools req \<longrightarrow>
      (\<exists>resp rs. create req = Inr resp \<and> stop_reason resp = ''tool_use''
                 \<and> tool_results env (resp_content resp) = Inr rs)"
    and answers: "\<forall>req. \<not> with_tools req \<longrightarrow> (\<exists>resp. create req = Inr resp)"
    and query: "strip raw \<noteq> []"
    and job: "search_jobs job_id \<noteq> None"
  shows
    "(\<exists>sent resp.
        search_fast (Some create) env raw
          = (sent, Ok \<lparr>success = True, sr_query = strip raw, results = [],
                       raw_response = Some (if final_text (resp_content resp) = []
                                            then ''No results found.''
                                            else final_text (resp_content resp))\<rparr>)
        \<and> length sent = 2 + 1 \<and> list_all with_tools sent \<and> create (last sent) = Inr resp)
     \<and> (\<exists>sent resp.
          search (Some create) env raw
            = (sent, Ok \<lparr>success = True, sr_query = strip raw,
                         results = page_refs (final_text (resp_content resp)),
                         raw_response = (if page_refs (final_text (resp_content resp)) = []
                                         then Some (final_text (resp_content resp))
                                         else None)\<rparr>)
          \<and> length sent = 5 + 1 \<and> list_all with_tools sent \<and> create (last sent) = Inr resp)
     \<and> (\<exists>sent resp.
          run_search_job (Some create) env search_jobs job_id query
            = (sent, search_jobs(job_id \<mapsto>
                 \<lparr>status = ''complete'', created = None,
                  result = Some \<lparr>success = True, sr_query = query,
                                 results = page_refs (final_text (resp_content resp)),
                                 raw_response =
                                   (if page_refs (final_text (resp_content resp)) = []
                                    then Some (final_text (resp_content resp))
                                    else None)\<rparr>,
                  error = None\<rparr>))
          \<and> length sent = 6 + 2 \<and> list_all with_tools (butlast sent)
          \<and> \<not> with_tools (last sent) \<and> create (last sent) = Inr resp)"
  using search_fast_hungry [OF hungry query] search_hungry [OF hungry query]
    run_search_job_hungry [where search_jobs = search_jobs and job_id = job_id,
      OF hungry answers job]
  by (intro conjI)

lemma tool_hungry_hungry:
  "\<forall>req. with_tools req \<longrightarrow>
      (\<exists>resp rs. tool_hungry req = Inr resp \<and> stop_reason resp = ''tool_use''
                 \<and> tool_results env (resp_content resp) = Inr rs)"
  by (simp add: tool_hungry_def execute_tool_def index_int_def)

lemma tool_hungry_answers: "\<forall>req. \<not> with_tools req \<longrightarrow> (\<exists>resp. tool_hungry req = Inr resp)"
  by (simp add: tool_hungry_def)

lemma strip_example: "strip ''Who is Stark?'' = ''Who is Stark?''"
  by (simp add: strip_def is_space_def)

lemma pending_job_exists: "pending_jobs ''1a2b3c4d'' \<noteq> None"
  by (simp add: pending_job)

text \<open>
  The service that asks for page 1 in every response.
\<close>

theorem orchestration_exchanges_witness:
  "strip ''Who is Stark?'' \<noteq> []
   \<and> pending_jobs ''1a2b3c4d'' \<noteq> None
   \<and> length (fst (search_fast (Some tool_hungry) example_env ''Who is Stark?'')) = 3
   \<and> length (fst (search (Some tool_hungry) example_env ''Who is Stark?'')) = 6
   \<and> list_all with_tools (fst (search (Some tool_hungry) example_env ''Who is Stark?''))
   \<and> length (fst (run_search_job (Some tool_hungry) example_env pending_jobs ''1a2b3c4d''
                     ''Who is Stark?'')) = 8
   \<and> \<not> with_tools (last (fst (run_search_job (Some tool_hungry) example_env pending_jobs
                                 ''1a2b3c4d'' ''Who is Stark?'')))"
proof -
  have q: "strip ''Who is Stark?'' \<noteq> []"
    by (simp add: strip_example)
  from orchestration_exchanges [where create = tool_hungry and search_jobs = pending_jobs
         and job_id = "''1a2b3c4d''" and env = example_env and query = "''Who is Stark?''",
         OF tool_hungry_hungry tool_hungry_answers q pending_job_exists]
  show ?thesis
    using q pending_job_exists by auto
qed

text \<open>
  The claim as stated fails: against that service the background job makes 8 exchanges,
  more than its 6 rounds plus one, and the two interactive callers send every request
  with the tools, the last one included.
\<close>

theorem background_exchanges_counterexample:
  "length (fst (run_search_job (Some tool_hungry) example_env pending_jobs ''1a2b3c4d''
                  ''Who is Stark?'')) = 8
   \<and> \<not> length (fst (run_search_job (Some tool_hungry) example_env pending_jobs ''1a2b3c4d''
                        ''Who is Stark?'')) \<le> 6 + 1
   \<and> list_all with_tools (fst (search (Some tool_hungry) example_env ''Who is Stark?''))
   \<and> list_all with_tools (fst (search_fast (Some tool_hungry) example_env ''Who is Stark?''))"
proof -
  have q: "strip ''Who is Stark?'' \<noteq> []"
    by (simp add: strip_example)
  from run_search_job_hungry [where create = tool_hungry and search_jobs = pending_jobs
         and job_id = "''1a2b3c4d''" and env = example_env and query = "''Who is Stark?''",
         OF tool_hungry_hungry tool_hungry_answers pending_job_exists]
    search_hungry [where create = tool_hungry and env = example_env, OF tool_hungry_hungry q]
    search_fast_hungry [where create = tool_hungry and env = example_env, OF tool_hungry_hungry q]
  show ?thesis by auto
qed

end
